theory Spec2Isabelle
  imports Main "HOL-Library.Word" "HOL-Library.AList"
begin

unbundle bit_operations_syntax

section \<open>The maple tree: node family, flags word and cursor\<close>

text \<open>
  Shallow embedding of \<^verbatim>\<open>include/linux/maple_tree.h\<close> and \<^verbatim>\<open>lib/maple_tree.c\<close>.
  The header fixes \<^verbatim>\<open>NODE256\<close> and gives slot counts for 64-bit kernels only, so
  \<^verbatim>\<open>unsigned long\<close> and every pointer is a 64-bit word and \<^verbatim>\<open>unsigned int\<close> a 32-bit
  word. The largest index is \<^verbatim>\<open>ULONG_MAX\<close>.
\<close>

type_synonym ulong = "64 word"
type_synonym uint = "32 word"

definition ULONG_MAX :: ulong where
  "ULONG_MAX = - 1"

definition UINT_MAX :: ulong where
  "UINT_MAX = 4294967295"

subsection \<open>Slot counts of the node variants (header, NODE256 on 64 bit)\<close>

definition MAPLE_NODE_SLOTS :: nat where "MAPLE_NODE_SLOTS = 31"
definition MAPLE_RANGE64_SLOTS :: nat where "MAPLE_RANGE64_SLOTS = 16"
definition MAPLE_ARANGE64_SLOTS :: nat where "MAPLE_ARANGE64_SLOTS = 10"
definition MAPLE_RANGE32_SLOTS :: nat where "MAPLE_RANGE32_SLOTS = 21"
definition MAPLE_RANGE16_SLOTS :: nat where "MAPLE_RANGE16_SLOTS = 25"
definition MAPLE_SPARSE64_SLOTS :: nat where "MAPLE_SPARSE64_SLOTS = 15"
definition MAPLE_SPARSE32_SLOTS :: nat where "MAPLE_SPARSE32_SLOTS = 20"
definition MAPLE_SPARSE21_SLOTS :: nat where "MAPLE_SPARSE21_SLOTS = 23"
definition MAPLE_SPARSE16_SLOTS :: nat where "MAPLE_SPARSE16_SLOTS = 24"
definition MAPLE_SPARSE9_SLOTS :: nat where "MAPLE_SPARSE9_SLOTS = 27"
definition MAPLE_SPARSE6_SLOTS :: nat where "MAPLE_SPARSE6_SLOTS = 30"

datatype maple_type =
    maple_dense
  | maple_sparse_6
  | maple_sparse_9
  | maple_sparse_16
  | maple_sparse_21
  | maple_sparse_32
  | maple_sparse_64
  | maple_leaf_16
  | maple_leaf_32
  | maple_leaf_64
  | maple_range_16
  | maple_range_32
  | maple_range_64
  | maple_arange_64

text \<open>The value of each enumerator, in declaration order.\<close>

fun maple_type_val :: "maple_type \<Rightarrow> nat" where
  "maple_type_val maple_dense = 0"
| "maple_type_val maple_sparse_6 = 1"
| "maple_type_val maple_sparse_9 = 2"
| "maple_type_val maple_sparse_16 = 3"
| "maple_type_val maple_sparse_21 = 4"
| "maple_type_val maple_sparse_32 = 5"
| "maple_type_val maple_sparse_64 = 6"
| "maple_type_val maple_leaf_16 = 7"
| "maple_type_val maple_leaf_32 = 8"
| "maple_type_val maple_leaf_64 = 9"
| "maple_type_val maple_range_16 = 10"
| "maple_type_val maple_range_32 = 11"
| "maple_type_val maple_range_64 = 12"
| "maple_type_val maple_arange_64 = 13"

text \<open>The table \<^verbatim>\<open>mt_max[]\<close>.\<close>

fun mt_max :: "maple_type \<Rightarrow> ulong" where
  "mt_max maple_dense = of_nat MAPLE_NODE_SLOTS"
| "mt_max maple_sparse_6 = push_bit 6 1 - 1"
| "mt_max maple_sparse_9 = push_bit 9 1 - 1"
| "mt_max maple_sparse_16 = push_bit 16 1 - 1"
| "mt_max maple_sparse_21 = push_bit 21 1 - 1"
| "mt_max maple_sparse_32 = UINT_MAX"
| "mt_max maple_sparse_64 = ULONG_MAX"
| "mt_max maple_leaf_16 = push_bit 16 1 - 1"
| "mt_max maple_leaf_32 = UINT_MAX"
| "mt_max maple_leaf_64 = ULONG_MAX"
| "mt_max maple_range_16 = push_bit 16 1 - 1"
| "mt_max maple_range_32 = UINT_MAX"
| "mt_max maple_range_64 = ULONG_MAX"
| "mt_max maple_arange_64 = ULONG_MAX"

text \<open>The table \<^verbatim>\<open>mt_slots[]\<close>.\<close>

fun mt_slots :: "maple_type \<Rightarrow> nat" where
  "mt_slots maple_dense = MAPLE_NODE_SLOTS"
| "mt_slots maple_sparse_6 = MAPLE_SPARSE6_SLOTS"
| "mt_slots maple_sparse_9 = MAPLE_SPARSE9_SLOTS"
| "mt_slots maple_sparse_16 = MAPLE_SPARSE16_SLOTS"
| "mt_slots maple_sparse_21 = MAPLE_SPARSE21_SLOTS"
| "mt_slots maple_sparse_32 = MAPLE_SPARSE32_SLOTS"
| "mt_slots maple_sparse_64 = MAPLE_SPARSE64_SLOTS"
| "mt_slots maple_leaf_16 = MAPLE_RANGE16_SLOTS"
| "mt_slots maple_leaf_32 = MAPLE_RANGE32_SLOTS"
| "mt_slots maple_leaf_64 = MAPLE_RANGE64_SLOTS"
| "mt_slots maple_range_16 = MAPLE_RANGE16_SLOTS"
| "mt_slots maple_range_32 = MAPLE_RANGE32_SLOTS"
| "mt_slots maple_range_64 = MAPLE_RANGE64_SLOTS"
| "mt_slots maple_arange_64 = MAPLE_ARANGE64_SLOTS"

text \<open>The table \<^verbatim>\<open>mt_pivots[]\<close>.\<close>

fun mt_pivots :: "maple_type \<Rightarrow> nat" where
  "mt_pivots maple_dense = 0"
| "mt_pivots maple_sparse_6 = 1"
| "mt_pivots maple_sparse_9 = MAPLE_SPARSE9_SLOTS - 1"
| "mt_pivots maple_sparse_16 = MAPLE_SPARSE16_SLOTS - 1"
| "mt_pivots maple_sparse_21 = MAPLE_SPARSE21_SLOTS - 1"
| "mt_pivots maple_sparse_32 = MAPLE_SPARSE32_SLOTS - 1"
| "mt_pivots maple_sparse_64 = MAPLE_SPARSE64_SLOTS - 1"
| "mt_pivots maple_leaf_16 = MAPLE_RANGE16_SLOTS - 1"
| "mt_pivots maple_leaf_32 = MAPLE_RANGE32_SLOTS - 1"
| "mt_pivots maple_leaf_64 = MAPLE_RANGE64_SLOTS - 1"
| "mt_pivots maple_range_16 = MAPLE_RANGE16_SLOTS - 1"
| "mt_pivots maple_range_32 = MAPLE_RANGE32_SLOTS - 1"
| "mt_pivots maple_range_64 = MAPLE_RANGE64_SLOTS - 1"
| "mt_pivots maple_arange_64 = MAPLE_ARANGE64_SLOTS - 1"

text \<open>The table \<^verbatim>\<open>mt_min_slots[]\<close>; \<^verbatim>\<open>NODE256\<close> is defined, so the first
  \<^verbatim>\<open>maple_arange_64\<close> initialiser is the one compiled.\<close>

fun mt_min_slots :: "maple_type \<Rightarrow> nat" where
  "mt_min_slots maple_dense = MAPLE_NODE_SLOTS div 2"
| "mt_min_slots maple_sparse_6 = MAPLE_SPARSE6_SLOTS div 2"
| "mt_min_slots maple_sparse_9 = MAPLE_SPARSE9_SLOTS div 2"
| "mt_min_slots maple_sparse_16 = MAPLE_SPARSE16_SLOTS div 2"
| "mt_min_slots maple_sparse_21 = MAPLE_SPARSE21_SLOTS div 2"
| "mt_min_slots maple_sparse_32 = MAPLE_SPARSE32_SLOTS div 2"
| "mt_min_slots maple_sparse_64 = MAPLE_SPARSE64_SLOTS div 2"
| "mt_min_slots maple_leaf_16 = MAPLE_RANGE16_SLOTS div 2"
| "mt_min_slots maple_leaf_32 = MAPLE_RANGE32_SLOTS div 2"
| "mt_min_slots maple_leaf_64 = (MAPLE_RANGE64_SLOTS div 2) - 2"
| "mt_min_slots maple_range_16 = MAPLE_RANGE16_SLOTS div 2"
| "mt_min_slots maple_range_32 = MAPLE_RANGE32_SLOTS div 2"
| "mt_min_slots maple_range_64 = (MAPLE_RANGE64_SLOTS div 2) - 2"
| "mt_min_slots maple_arange_64 = (MAPLE_ARANGE64_SLOTS div 2) - 1"

definition ma_is_dense :: "maple_type \<Rightarrow> bool" where
  "ma_is_dense type = (maple_type_val type < maple_type_val maple_sparse_6)"

definition ma_is_leaf :: "maple_type \<Rightarrow> bool" where
  "ma_is_leaf type = (maple_type_val type < maple_type_val maple_range_16)"

subsection \<open>The tree handle and its flags word\<close>

text \<open>\<^verbatim>\<open>struct maple_tree\<close> without its spinlock: locking has no effect on a
  single thread of control.\<close>

record maple_tree =
  ma_flags :: uint
  ma_root :: ulong

definition MAPLE_ALLOC_RANGE :: nat where "MAPLE_ALLOC_RANGE = 1"
definition MAPLE_USE_RCU :: nat where "MAPLE_USE_RCU = 2"
definition MAPLE_HEIGHT_OFFSET :: nat where "MAPLE_HEIGHT_OFFSET = 2"
definition MAPLE_HEIGHT_MASK :: nat where "MAPLE_HEIGHT_MASK = 60"

definition mt_height :: "maple_tree \<Rightarrow> uint" where
  "mt_height mt = drop_bit MAPLE_HEIGHT_OFFSET (ma_flags mt AND of_nat MAPLE_HEIGHT_MASK)"

definition mt_is_alloc :: "maple_tree \<Rightarrow> bool" where
  "mt_is_alloc mt = (ma_flags mt AND of_nat MAPLE_ALLOC_RANGE \<noteq> 0)"

text \<open>\<^verbatim>\<open>mas_in_rcu\<close> reads the tree through the cursor; the flags word is all it uses.
  The tested mask is \<^verbatim>\<open>1 << MAPLE_USE_RCU\<close>.\<close>

definition mas_in_rcu :: "maple_tree \<Rightarrow> bool" where
  "mas_in_rcu mt = (ma_flags mt AND push_bit MAPLE_USE_RCU 1 \<noteq> 0)"

definition mt_clear_in_rcu :: "maple_tree \<Rightarrow> maple_tree" where
  "mt_clear_in_rcu mt =
     (if ma_flags mt AND of_nat MAPLE_USE_RCU = 0 then mt
      else mt\<lparr>ma_flags := ma_flags mt AND NOT (push_bit MAPLE_USE_RCU 1)\<rparr>)"

definition mt_set_in_rcu :: "maple_tree \<Rightarrow> maple_tree" where
  "mt_set_in_rcu mt =
     (if ma_flags mt AND of_nat MAPLE_USE_RCU \<noteq> 0 then mt
      else mt\<lparr>ma_flags := ma_flags mt OR push_bit MAPLE_USE_RCU 1\<rparr>)"

definition mt_init_flags :: "uint \<Rightarrow> maple_tree" where
  "mt_init_flags flags = \<lparr>ma_flags = flags, ma_root = 0\<rparr>"

subsection \<open>The cursor\<close>

text \<open>
  \<^verbatim>\<open>struct ma_state\<close>. The pointer to the tree is not a field here: the functions below
  take the memory that holds the tree as a separate argument. The \<^verbatim>\<open>alloc\<close> word of
  the C structure carries two things, the address of the first pre-allocated node and,
  in its low seven bits, a small number that \<^verbatim>\<open>mas_set_alloc_req\<close> and
  \<^verbatim>\<open>mas_set_offset\<close> both write; they are the fields \<open>alloc\<close> (the nodes held, first
  node first) and \<open>alloc_req\<close>. The fields \<^verbatim>\<open>last\<close>, \<^verbatim>\<open>min\<close> and \<^verbatim>\<open>max\<close> are
  \<open>last_idx\<close>, \<open>min_idx\<close> and \<open>max_idx\<close>.
\<close>

record ma_state =
  index :: ulong
  last_idx :: ulong
  node :: ulong
  min_idx :: ulong
  max_idx :: ulong
  alloc :: "ulong list"
  alloc_req :: nat
  span_enode :: ulong
  full_cnt :: int
  depth :: "8 word"

definition MAS_START :: ulong where "MAS_START = 1"
definition MAS_ROOT :: ulong where "MAS_ROOT = 5"
definition MAS_NONE :: ulong where "MAS_NONE = 9"

text \<open>The initialiser \<^verbatim>\<open>MA_STATE(name, mt, first, end)\<close>; unnamed fields are zero.\<close>

definition MA_STATE :: "ulong \<Rightarrow> ulong \<Rightarrow> ma_state" where
  "MA_STATE first lst =
     \<lparr>index = first, last_idx = lst, node = MAS_START, min_idx = 0, max_idx = ULONG_MAX,
      alloc = [], alloc_req = 0, span_enode = 0, full_cnt = 0, depth = 0\<rparr>"

definition mas_is_none :: "ma_state \<Rightarrow> bool" where
  "mas_is_none mas = (node mas = MAS_NONE)"

definition mas_is_ptr :: "ma_state \<Rightarrow> bool" where
  "mas_is_ptr mas = (node mas = MAS_ROOT)"

definition mas_is_start :: "ma_state \<Rightarrow> bool" where
  "mas_is_start mas = (node mas = MAS_START)"

definition mas_reset :: "ma_state \<Rightarrow> ma_state" where
  "mas_reset mas = mas\<lparr>node := MAS_START\<rparr>"

definition mas_pause :: "ma_state \<Rightarrow> ma_state" where
  "mas_pause mas =
     (if last_idx mas = ULONG_MAX then mas\<lparr>node := MAS_NONE\<rparr>
      else (let mas1 = mas_reset mas;
                mas2 = mas1\<lparr>last_idx := last_idx mas1 + 1\<rparr>
            in mas2\<lparr>index := last_idx mas2\<rparr>))"

subsection \<open>Entries of the companion array and error numbers\<close>

text \<open>Modelled from the spec: \<^verbatim>\<open>xa_mk_internal\<close> and \<^verbatim>\<open>xa_is_internal\<close> of the companion
  indexed-array structure (\<^verbatim>\<open>linux/xarray.h\<close> is not among the sources): the internal
  low-bit tag is the bit pattern 10 in the two lowest bits, as the comment above
  \<^verbatim>\<open>mt_is_reserved\<close> says.\<close>

definition xa_mk_internal :: "ulong \<Rightarrow> ulong" where
  "xa_mk_internal v = push_bit 2 v OR 2"

definition xa_is_internal :: "ulong \<Rightarrow> bool" where
  "xa_is_internal entry = (entry AND 3 = 2)"

text \<open>Modelled from the spec: the sentinel encodings of the companion indexed-array
  structure (\<^verbatim>\<open>linux/xarray.h\<close>): the retry entry is internal value 256 and the zero entry
  internal value 257; the advanced entries are the internal entries up to the retry entry;
  a node pointer is an internal entry above the first page.\<close>

definition XA_RETRY_ENTRY :: ulong where
  "XA_RETRY_ENTRY = xa_mk_internal 256"

definition XA_ZERO_ENTRY :: ulong where
  "XA_ZERO_ENTRY = xa_mk_internal 257"

definition xa_is_zero :: "ulong \<Rightarrow> bool" where
  "xa_is_zero entry = (entry = XA_ZERO_ENTRY)"

definition xa_is_advanced :: "ulong \<Rightarrow> bool" where
  "xa_is_advanced entry = (xa_is_internal entry \<and> entry \<le> XA_RETRY_ENTRY)"

definition xa_is_node :: "ulong \<Rightarrow> bool" where
  "xa_is_node entry = (xa_is_internal entry \<and> entry > 4096)"

text \<open>Modelled from the spec: the error numbers of the boundary (\<^verbatim>\<open>errno.h\<close> is not among
  the sources) and the error encodings of \<^verbatim>\<open>linux/xarray.h\<close>: an error entry is an internal
  entry of value at least \<^verbatim>\<open>-MAX_ERRNO\<close>, and \<^verbatim>\<open>xa_err\<close> reads the number back with an
  arithmetic shift.\<close>

definition ENOMEM :: int where "ENOMEM = 12"
definition EBUSY :: int where "EBUSY = 16"
definition EEXIST :: int where "EEXIST = 17"
definition EINVAL :: int where "EINVAL = 22"
definition MAX_ERRNO :: int where "MAX_ERRNO = 4095"

definition xa_is_err :: "ulong \<Rightarrow> bool" where
  "xa_is_err entry = (xa_is_internal entry \<and> entry \<ge> xa_mk_internal (word_of_int (- MAX_ERRNO)))"

definition xa_err :: "ulong \<Rightarrow> int" where
  "xa_err entry = (if xa_is_err entry then sint (signed_drop_bit 2 entry) else 0)"

text \<open>The macro \<^verbatim>\<open>MA_ERROR(err)\<close> of the header.\<close>

definition MA_ERROR :: "int \<Rightarrow> ulong" where
  "MA_ERROR err = push_bit 2 (word_of_int err) OR 2"

text \<open>A value of type \<^verbatim>\<open>unsigned long\<close> returned through an \<^verbatim>\<open>int\<close>.\<close>

definition int_of_ulong :: "ulong \<Rightarrow> int" where
  "int_of_ulong v = sint (ucast v :: 32 word)"

subsection \<open>Outcomes\<close>

text \<open>
  A C function either returns or stops the program. \<open>Bad_Access\<close> is a read or write
  through a pointer that addresses no node, or past the declared length of an array:
  undefined behaviour in C. \<open>Bug_On\<close> is a \<^verbatim>\<open>BUG_ON\<close> that fired. \<open>Not_Embedded\<close> marks a
  call into a part of the file that is not translated here (the spanning store, the
  rebalance of a node left too small, the push of data into a sibling, the extension of
  a stored null over its null neighbours, the propagation of a changed gap to the parent,
  the gap search below the root). \<open>Out_Of_Fuel\<close> is a loop cut off by its bound on the
  number of iterations.
\<close>

datatype halt = Bad_Access | Bug_On | Not_Embedded | Out_Of_Fuel

definition bnd :: "halt + 'a \<Rightarrow> ('a \<Rightarrow> halt + 'b) \<Rightarrow> halt + 'b" where
  "bnd m f = (case m of Inl h \<Rightarrow> Inl h | Inr x \<Rightarrow> f x)"

subsection \<open>Nodes and memory\<close>

text \<open>
  A node is seen through the variant it is used as: its parent word and its pivot, slot
  and gap arrays; no array of any variant has more than \<^verbatim>\<open>MAPLE_NODE_SLOTS\<close> elements,
  and every access below is checked against the length the variant declares. The byte
  overlay of the variants in the C union is not modelled. Freshly allocated nodes are
  zeroed (\<^verbatim>\<open>__GFP_ZERO\<close>).
\<close>

record maple_node =
  parent :: ulong
  pivot :: "ulong list"
  slot :: "ulong list"
  gap :: "ulong list"

definition zero_node :: maple_node where
  "zero_node =
     \<lparr>parent = 0, pivot = replicate MAPLE_NODE_SLOTS 0, slot = replicate MAPLE_NODE_SLOTS 0,
      gap = replicate MAPLE_NODE_SLOTS 0\<rparr>"

text \<open>
  The memory the tree lives in: the handle, the address of the handle (it is written
  into the root node's parent word), the nodes by address (an association list, read with
  \<open>map_of\<close> and written with \<open>AList.update\<close>), and the slab cache
  \<^verbatim>\<open>maple_node_cache\<close> as the list of addresses it will hand out, in order; an empty list
  is an allocator that fails.
\<close>

record kernel =
  tree :: maple_tree
  tree_addr :: ulong
  nodes :: "(ulong \<times> maple_node) list"
  maple_node_cache :: "ulong list"

definition node_at :: "kernel \<Rightarrow> ulong \<Rightarrow> halt + maple_node" where
  "node_at w a = (case map_of (nodes w) a of None \<Rightarrow> Inl Bad_Access | Some n \<Rightarrow> Inr n)"

definition set_node :: "kernel \<Rightarrow> ulong \<Rightarrow> maple_node \<Rightarrow> kernel" where
  "set_node w a n = w\<lparr>nodes := AList.update a n (nodes w)\<rparr>"

definition mt_alloc_one :: "kernel \<Rightarrow> kernel \<times> ulong" where
  "mt_alloc_one w =
     (case maple_node_cache w of
        [] \<Rightarrow> (w, 0)
      | a # rest \<Rightarrow> ((set_node w a zero_node)\<lparr>maple_node_cache := rest\<rparr>, a))"

definition kmem_cache_free :: "kernel \<Rightarrow> ulong \<Rightarrow> kernel" where
  "kmem_cache_free w a = w\<lparr>nodes := AList.delete a (nodes w)\<rparr>"

subsection \<open>Encoded node pointers\<close>

definition MA_ROOT_PARENT :: ulong where "MA_ROOT_PARENT = 1"

text \<open>The enumerator with a given value; 14 and 15 are values of no enumerator, and the
  tables have no entry for them.\<close>

definition maple_type_of :: "ulong \<Rightarrow> maple_type option" where
  "maple_type_of v =
     (if v = 0 then Some maple_dense
      else if v = 1 then Some maple_sparse_6
      else if v = 2 then Some maple_sparse_9
      else if v = 3 then Some maple_sparse_16
      else if v = 4 then Some maple_sparse_21
      else if v = 5 then Some maple_sparse_32
      else if v = 6 then Some maple_sparse_64
      else if v = 7 then Some maple_leaf_16
      else if v = 8 then Some maple_leaf_32
      else if v = 9 then Some maple_leaf_64
      else if v = 10 then Some maple_range_16
      else if v = 11 then Some maple_range_32
      else if v = 12 then Some maple_range_64
      else if v = 13 then Some maple_arange_64
      else None)"

definition mte_node_type :: "ulong \<Rightarrow> halt + maple_type" where
  "mte_node_type entry =
     (case maple_type_of (drop_bit 3 entry AND 15) of
        None \<Rightarrow> Inl Bad_Access
      | Some t \<Rightarrow> Inr t)"

definition mte_to_node :: "ulong \<Rightarrow> ulong" where
  "mte_to_node entry = entry AND NOT 127"

definition mt_mk_node :: "ulong \<Rightarrow> maple_type \<Rightarrow> ulong" where
  "mt_mk_node nd type = nd OR push_bit 3 (of_nat (maple_type_val type)) OR 4"

definition mte_mk_root :: "ulong \<Rightarrow> ulong" where
  "mte_mk_root nd = nd OR 2"

definition mte_safe_root :: "ulong \<Rightarrow> ulong" where
  "mte_safe_root nd = nd AND NOT 2"

definition mt_is_reserved :: "ulong \<Rightarrow> bool" where
  "mt_is_reserved entry = (entry < 4096 \<and> xa_is_internal entry)"

definition mt_is_empty :: "ulong \<Rightarrow> bool" where
  "mt_is_empty entry = (entry = 0)"

definition mas_set_err :: "ma_state \<Rightarrow> int \<Rightarrow> ma_state" where
  "mas_set_err mas err = mas\<lparr>node := MA_ERROR err\<rparr>"

definition mas_is_err :: "ma_state \<Rightarrow> bool" where
  "mas_is_err mas = xa_is_err (node mas)"

definition mas_mn :: "ma_state \<Rightarrow> ulong" where
  "mas_mn mas = mte_to_node (node mas)"

definition mte_is_root :: "kernel \<Rightarrow> ulong \<Rightarrow> halt + bool" where
  "mte_is_root w nd =
     bnd (node_at w (mte_to_node nd)) (\<lambda>n. Inr (parent n AND MA_ROOT_PARENT \<noteq> 0))"

definition mte_parent :: "kernel \<Rightarrow> ulong \<Rightarrow> halt + ulong" where
  "mte_parent w nd =
     bnd (node_at w (mte_to_node nd)) (\<lambda>n. Inr (parent n AND NOT 127))"

definition mte_dead_node :: "kernel \<Rightarrow> ulong \<Rightarrow> halt + bool" where
  "mte_dead_node w enode =
     bnd (mte_parent w enode) (\<lambda>par. Inr (par = mte_to_node enode))"

subsection \<open>The cursor's pool of nodes and its offset\<close>

text \<open>
  \<^verbatim>\<open>mas_set_alloc_req\<close> ors the count into the low seven bits of the \<^verbatim>\<open>alloc\<close> word. A
  count of 128 or more would change the address bits of that word; the model stops there.
  \<^verbatim>\<open>mas_offset\<close> and \<^verbatim>\<open>mas_set_offset\<close> are the same two functions under another name.
\<close>

definition mas_get_alloc :: "ma_state \<Rightarrow> ulong" where
  "mas_get_alloc ms = (case alloc ms of [] \<Rightarrow> 0 | a # _ \<Rightarrow> a)"

definition mas_get_alloc_cnt :: "ma_state \<Rightarrow> nat" where
  "mas_get_alloc_cnt mas = length (alloc mas)"

definition mas_set_alloc_req :: "ma_state \<Rightarrow> nat \<Rightarrow> halt + ma_state" where
  "mas_set_alloc_req mas count =
     (if count < 128 then Inr (mas\<lparr>alloc_req := count\<rparr>) else Inl Bad_Access)"

definition mas_get_alloc_req :: "ma_state \<Rightarrow> nat" where
  "mas_get_alloc_req mas = alloc_req mas"

definition mas_offset :: "ma_state \<Rightarrow> nat" where
  "mas_offset mas = mas_get_alloc_req mas"

definition mas_set_offset :: "ma_state \<Rightarrow> nat \<Rightarrow> halt + ma_state" where
  "mas_set_offset mas slt = mas_set_alloc_req mas slt"

subsection \<open>Pivots and slots\<close>

text \<open>The declared length of each variant's pivot array and the width of its elements,
  from the structure declarations of the header.\<close>

fun ma_pivot_len :: "maple_type \<Rightarrow> nat" where
  "ma_pivot_len maple_dense = 0"
| "ma_pivot_len maple_sparse_6 = 1"
| "ma_pivot_len maple_sparse_9 = (MAPLE_SPARSE9_SLOTS + 6) div 7"
| "ma_pivot_len maple_sparse_16 = MAPLE_SPARSE16_SLOTS"
| "ma_pivot_len maple_sparse_21 = (MAPLE_SPARSE21_SLOTS + 2) div 3"
| "ma_pivot_len maple_sparse_32 = MAPLE_SPARSE32_SLOTS"
| "ma_pivot_len maple_sparse_64 = MAPLE_SPARSE64_SLOTS"
| "ma_pivot_len maple_leaf_16 = MAPLE_RANGE16_SLOTS - 1"
| "ma_pivot_len maple_leaf_32 = MAPLE_RANGE32_SLOTS - 1"
| "ma_pivot_len maple_leaf_64 = MAPLE_RANGE64_SLOTS - 1"
| "ma_pivot_len maple_range_16 = MAPLE_RANGE16_SLOTS - 1"
| "ma_pivot_len maple_range_32 = MAPLE_RANGE32_SLOTS - 1"
| "ma_pivot_len maple_range_64 = MAPLE_RANGE64_SLOTS - 1"
| "ma_pivot_len maple_arange_64 = MAPLE_ARANGE64_SLOTS - 1"

fun ma_pivot_bits :: "maple_type \<Rightarrow> nat" where
  "ma_pivot_bits maple_sparse_16 = 16"
| "ma_pivot_bits maple_leaf_16 = 16"
| "ma_pivot_bits maple_range_16 = 16"
| "ma_pivot_bits maple_sparse_32 = 32"
| "ma_pivot_bits maple_leaf_32 = 32"
| "ma_pivot_bits maple_range_32 = 32"
| "ma_pivot_bits _ = 64"

definition ma_get_pivot :: "maple_node \<Rightarrow> nat \<Rightarrow> maple_type \<Rightarrow> halt + ulong" where
  "ma_get_pivot mn slt type =
     (case type of
        maple_dense \<Rightarrow> Inr 0
      | maple_sparse_6 \<Rightarrow> Inr (pivot mn ! 0)
      | _ \<Rightarrow> if slt < ma_pivot_len type then Inr (pivot mn ! slt) else Inl Bad_Access)"

definition u_mte_get_pivot :: "kernel \<Rightarrow> ulong \<Rightarrow> nat \<Rightarrow> maple_type \<Rightarrow> halt + ulong" where
  "u_mte_get_pivot w mn slt type =
     bnd (node_at w (mte_to_node mn)) (\<lambda>n. ma_get_pivot n slt type)"

definition mte_get_pivot :: "kernel \<Rightarrow> ulong \<Rightarrow> nat \<Rightarrow> halt + ulong" where
  "mte_get_pivot w mn slt =
     bnd (mte_node_type mn) (\<lambda>type. u_mte_get_pivot w mn slt type)"

definition u_mas_get_safe_pivot ::
    "kernel \<Rightarrow> ma_state \<Rightarrow> nat \<Rightarrow> maple_type \<Rightarrow> halt + ulong" where
  "u_mas_get_safe_pivot w mas slt type =
     (if slt \<ge> mt_pivots type then Inr (max_idx mas)
      else u_mte_get_pivot w (node mas) slt type)"

definition mas_get_safe_pivot :: "kernel \<Rightarrow> ma_state \<Rightarrow> nat \<Rightarrow> halt + ulong" where
  "mas_get_safe_pivot w mas slt =
     bnd (mte_node_type (node mas)) (\<lambda>type. u_mas_get_safe_pivot w mas slt type)"

definition ma_set_pivot :: "maple_node \<Rightarrow> nat \<Rightarrow> maple_type \<Rightarrow> ulong \<Rightarrow> halt + maple_node" where
  "ma_set_pivot mn slt type val =
     (if slt \<ge> mt_pivots type then Inl Bug_On
      else case type of
        maple_dense \<Rightarrow> Inr mn
      | maple_sparse_6 \<Rightarrow> Inr (mn\<lparr>pivot := (pivot mn)[0 := val]\<rparr>)
      | _ \<Rightarrow>
          if slt < ma_pivot_len type
          then Inr (mn\<lparr>pivot := (pivot mn)[slt := take_bit (ma_pivot_bits type) val]\<rparr>)
          else Inl Bad_Access)"

definition mte_set_pivot :: "kernel \<Rightarrow> ulong \<Rightarrow> nat \<Rightarrow> ulong \<Rightarrow> halt + kernel" where
  "mte_set_pivot w mn slt val =
     bnd (mte_node_type mn) (\<lambda>type.
     bnd (node_at w (mte_to_node mn)) (\<lambda>n.
     bnd (ma_set_pivot n slt type val) (\<lambda>n'.
     Inr (set_node w (mte_to_node mn) n'))))"

definition ma_get_rcu_slot :: "maple_node \<Rightarrow> nat \<Rightarrow> maple_type \<Rightarrow> halt + ulong" where
  "ma_get_rcu_slot mn slt type =
     (if slt < mt_slots type then Inr (slot mn ! slt) else Inl Bad_Access)"

definition mte_get_rcu_slot :: "kernel \<Rightarrow> ulong \<Rightarrow> nat \<Rightarrow> halt + ulong" where
  "mte_get_rcu_slot w mn slt =
     bnd (mte_node_type mn) (\<lambda>type.
     bnd (node_at w (mte_to_node mn)) (\<lambda>n. ma_get_rcu_slot n slt type))"

definition mas_get_rcu_slot :: "kernel \<Rightarrow> ma_state \<Rightarrow> nat \<Rightarrow> halt + ulong" where
  "mas_get_rcu_slot w mas slt = mte_get_rcu_slot w (node mas) slt"

definition ma_set_rcu_slot :: "maple_node \<Rightarrow> nat \<Rightarrow> maple_type \<Rightarrow> ulong \<Rightarrow> halt + maple_node" where
  "ma_set_rcu_slot mn slt type val =
     (if slt \<ge> mt_slots type then Inl Bug_On
      else Inr (mn\<lparr>slot := (slot mn)[slt := val]\<rparr>))"

definition mte_set_rcu_slot :: "kernel \<Rightarrow> ulong \<Rightarrow> nat \<Rightarrow> ulong \<Rightarrow> halt + kernel" where
  "mte_set_rcu_slot w mn slt val =
     bnd (mte_node_type mn) (\<lambda>type.
     bnd (node_at w (mte_to_node mn)) (\<lambda>n.
     bnd (ma_set_rcu_slot n slt type val) (\<lambda>n'.
     Inr (set_node w (mte_to_node mn) n'))))"

subsection \<open>Starting a walk and reading\<close>

text \<open>Leading underscores of the C names are written as a prefix: \<^verbatim>\<open>_mas_store\<close> is
  \<open>u_mas_store\<close> and \<^verbatim>\<open>__mas_walk\<close> is \<open>uu_mas_walk\<close>.\<close>

definition mas_start :: "kernel \<Rightarrow> ma_state \<Rightarrow> halt + (ma_state \<times> ulong)" where
  "mas_start w mas =
     (if mas_is_err mas then Inr (mas, 0)
      else if mas_is_start mas then
        bnd (mas_set_offset (mas\<lparr>node := MAS_NONE, min_idx := 0, max_idx := ULONG_MAX\<rparr>) 0)
          (\<lambda>mas.
        if ma_root (tree w) = 0 then Inr (mas, 0)
        else
          let root = mte_safe_root (ma_root (tree w)) in
          if \<not> xa_is_node (ma_root (tree w)) then
            (if index mas > 0 then Inr (mas, 0)
             else bnd (mas_set_offset (mas\<lparr>node := MAS_ROOT\<rparr>) MAPLE_NODE_SLOTS)
                    (\<lambda>mas. Inr (mas, ma_root (tree w))))
          else Inr (mas\<lparr>node := root\<rparr>, 0))
      else Inr (mas, 0))"

text \<open>
  The \<^verbatim>\<open>for\<close> loop of \<^verbatim>\<open>mas_node_walk\<close> for the variants with pivots. Its state is the
  slot \<open>i\<close>, \<open>min\<close> and \<open>pivot\<close>; it returns them with the flag \<open>ret\<close>.
\<close>

function mas_node_walk_loop ::
    "kernel \<Rightarrow> ma_state \<Rightarrow> maple_type \<Rightarrow> nat \<Rightarrow> ulong \<Rightarrow> ulong
       \<Rightarrow> halt + (nat \<times> ulong \<times> ulong \<times> bool)" where
  "mas_node_walk_loop w mas type i mn pv =
     (if i < mt_slots type then
        (case u_mas_get_safe_pivot w mas i type of
           Inl h \<Rightarrow> Inl h
         | Inr pv' \<Rightarrow>
             if pv' = 0 \<and> i \<noteq> 0 then
               (if max_idx mas < index mas
                then Inr (MAPLE_NODE_SLOTS, mn, max_idx mas, False)
                else Inr (i, mn, max_idx mas, True))
             else if index mas \<le> pv' then Inr (i, mn, pv', True)
             else mas_node_walk_loop w mas type (i + 1) (pv' + 1) pv')
      else Inr (i, mn, pv, True))"
  by pat_completeness auto
termination
  by (relation "measure (\<lambda>(w, mas, type, i, mn, pv). mt_slots type - i)") auto

text \<open>\<^verbatim>\<open>mas_node_walk\<close> returns the cursor, the range (written only when \<open>ret\<close> holds;
  the caller's previous values are passed in) and \<open>ret\<close>. In a dense node the slot is
  the \<^verbatim>\<open>unsigned char\<close> truncation of \<^verbatim>\<open>mas->min\<close>.\<close>

definition mas_node_walk ::
    "kernel \<Rightarrow> ma_state \<Rightarrow> maple_type \<Rightarrow> ulong \<Rightarrow> ulong
       \<Rightarrow> halt + (ma_state \<times> ulong \<times> ulong \<times> bool)" where
  "mas_node_walk w mas type range_min range_max =
     bnd (case type of
            maple_dense \<Rightarrow>
              Inr (mas\<lparr>index := min_idx mas\<rparr>,
                   unat (ucast (min_idx mas) :: 8 word), index mas, index mas, True)
          | _ \<Rightarrow>
              bnd (mas_node_walk_loop w mas type (mas_offset mas) (min_idx mas) 0)
                (\<lambda>(i, mn, pv, ret). Inr (mas, i, mn, pv, ret)))
       (\<lambda>(mas, i, mn, pv, ret).
     bnd (mas_set_offset mas i) (\<lambda>mas.
     if ret then Inr (mas, mn, pv, True)
     else Inr (mas, range_min, range_max, False)))"

text \<open>The descent \<^verbatim>\<open>__mas_walk\<close>: an unbounded loop in C, bounded here by the number
  of levels it may visit.\<close>

fun uu_mas_walk ::
    "nat \<Rightarrow> kernel \<Rightarrow> ma_state \<Rightarrow> ulong \<Rightarrow> ulong
       \<Rightarrow> halt + (ma_state \<times> ulong \<times> ulong \<times> bool)" where
  "uu_mas_walk 0 w mas range_min range_max = Inl Out_Of_Fuel"
| "uu_mas_walk (Suc fuel) w mas range_min range_max =
     (let mas = mas\<lparr>depth := depth mas + 1\<rparr> in
      bnd (mte_node_type (node mas)) (\<lambda>type.
      bnd (mas_node_walk w mas type range_min range_max) (\<lambda>(mas, range_min, range_max, ok).
      if \<not> ok then Inr (mas, range_min, range_max, False)
      else if ma_is_leaf type then Inr (mas, range_min, range_max, True)
      else
        bnd (mas_get_rcu_slot w mas (mas_offset mas)) (\<lambda>next.
        if mt_is_empty next then Inr (mas, range_min, range_max, False)
        else
          bnd (mas_set_offset (mas\<lparr>max_idx := range_max, min_idx := range_min, node := next\<rparr>) 0)
            (\<lambda>mas. uu_mas_walk fuel w mas range_min range_max)))))"

definition u_mas_range_walk ::
    "nat \<Rightarrow> kernel \<Rightarrow> ma_state \<Rightarrow> ulong \<Rightarrow> ulong
       \<Rightarrow> halt + (ma_state \<times> ulong \<times> ulong \<times> bool)" where
  "u_mas_range_walk fuel w mas range_min range_max =
     bnd (mas_start w mas) (\<lambda>(mas, entry).
     if entry \<noteq> 0 then Inr (mas, range_min, range_max, True)
     else if mas_is_none mas then
       bnd (mas_set_offset mas MAPLE_NODE_SLOTS) (\<lambda>mas. Inr (mas, range_min, range_max, False))
     else if mas_is_ptr mas then Inr (mas, range_min, range_max, True)
     else bnd (mas_set_offset mas 0) (\<lambda>mas. uu_mas_walk fuel w mas range_min range_max))"

text \<open>\<^verbatim>\<open>mas_range_load\<close>. The \<^verbatim>\<open>goto retry\<close> taken on a dead node is a second loop; the
  first argument bounds its rounds, the second the levels of each walk.\<close>

fun mas_range_load ::
    "nat \<Rightarrow> nat \<Rightarrow> kernel \<Rightarrow> ma_state \<Rightarrow> ulong \<Rightarrow> ulong
       \<Rightarrow> halt + (ma_state \<times> ulong \<times> ulong \<times> ulong)" where
  "mas_range_load 0 fuel w mas range_min range_max = Inl Out_Of_Fuel"
| "mas_range_load (Suc rounds) fuel w mas range_min range_max =
     bnd (u_mas_range_walk fuel w mas range_min range_max) (\<lambda>(mas, range_min, range_max, ok).
     let finish = (\<lambda>entry.
           if mas_is_none mas then Inr (mas, range_min, range_max, 0)
           else if entry = 0 then Inr (mas, range_min, range_max, 0)
           else Inr (mas, range_min, range_max, entry)) in
     if ok then
       (if mas_is_ptr mas \<and> last_idx mas = 0
        then Inr (mas, range_min, range_max, mte_safe_root (ma_root (tree w)))
        else
          let slt = mas_offset mas in
          if slt \<ge> MAPLE_NODE_SLOTS then Inr (mas, range_min, range_max, 0)
          else
            bnd (mas_get_rcu_slot w mas slt) (\<lambda>entry.
            bnd (mte_dead_node w (node mas)) (\<lambda>dead.
            if dead then mas_range_load rounds fuel w mas range_min range_max
            else finish entry)))
     else finish 0)"

definition mas_load :: "nat \<Rightarrow> nat \<Rightarrow> kernel \<Rightarrow> ma_state \<Rightarrow> halt + (ma_state \<times> ulong)" where
  "mas_load rounds fuel w mas =
     bnd (mas_range_load rounds fuel w mas 0 0) (\<lambda>(mas, range_min, range_max, entry).
     Inr (mas, entry))"

definition mtree_load :: "nat \<Rightarrow> nat \<Rightarrow> kernel \<Rightarrow> ulong \<Rightarrow> halt + ulong" where
  "mtree_load rounds fuel w idx =
     bnd (mas_load rounds fuel w (MA_STATE idx idx)) (\<lambda>(mas, entry).
     if xa_is_zero entry then Inr 0 else Inr entry)"

subsection \<open>Filling and draining the cursor's pool\<close>

text \<open>
  The nodes a cursor holds hang off the first one: up to \<^verbatim>\<open>MAPLE_NODE_SLOTS\<close> of them in
  its slots, further ones in the slots of those. The list \<open>alloc\<close> is the first node
  followed by the nodes in its slots; a pool that needs the second level is not embedded.
  The \<^verbatim>\<open>gfp\<close> argument has no effect on the list that stands for the slab cache and is
  left out.
\<close>

fun mas_node_node_loop ::
    "nat \<Rightarrow> kernel \<Rightarrow> ulong list \<Rightarrow> halt + (kernel \<times> ulong list \<times> nat)" where
  "mas_node_node_loop 0 w pool = Inr (w, pool, 0)"
| "mas_node_node_loop (Suc req) w pool =
     (if length pool > MAPLE_NODE_SLOTS then Inl Not_Embedded
      else case mt_alloc_one w of
        (w', smn) \<Rightarrow>
          if smn = 0 then Inr (w, pool, Suc req)
          else mas_node_node_loop req w' (pool @ [smn]))"

definition mas_node_node :: "kernel \<Rightarrow> ma_state \<Rightarrow> halt + (kernel \<times> ma_state)" where
  "mas_node_node w ms =
     (let req = mas_get_alloc_req ms in
      if req = 0 then Inr (w, ms)
      else
        case (if mas_get_alloc ms = 0
              then (case mt_alloc_one w of
                      (w', mn) \<Rightarrow> if mn = 0 then None else Some (w', [mn], req - 1))
              else Some (w, alloc ms, req)) of
          None \<Rightarrow> Inr (w, mas_set_err ms (- ENOMEM))
        | Some (w, pool, req) \<Rightarrow>
            bnd (mas_node_node_loop req w pool) (\<lambda>(w, pool, req).
            bnd (mas_set_alloc_req (ms\<lparr>alloc := pool, alloc_req := 0\<rparr>) req) (\<lambda>ms.
            Inr (w, if req > 0 then mas_set_err ms (- ENOMEM) else ms))))"

definition mas_node_cnt :: "kernel \<Rightarrow> ma_state \<Rightarrow> nat \<Rightarrow> halt + (kernel \<times> ma_state)" where
  "mas_node_cnt w mas count =
     (let allocated = mas_get_alloc_cnt mas in
      if count > 127 then Inl Bug_On
      else if allocated < count then
        bnd (mas_set_alloc_req mas (count - allocated)) (\<lambda>mas. mas_node_node w mas)
      else Inr (w, mas))"

definition mas_next_alloc :: "ma_state \<Rightarrow> halt + (ma_state \<times> ulong)" where
  "mas_next_alloc ms =
     (if alloc ms = [] \<and> alloc_req ms = 0 then Inr (ms, 0)
      else
        let cnt = mas_get_alloc_cnt ms; mn = mas_get_alloc ms in
        if cnt = 1 then Inr (ms\<lparr>alloc := [], alloc_req := 0\<rparr>, mn)
        else if cnt \<le> MAPLE_NODE_SLOTS + 1 then
          (if cnt = 0 then Inl Bad_Access
           else Inr (ms\<lparr>alloc := butlast (alloc ms)\<rparr>, last (alloc ms)))
        else Inl Not_Embedded)"

function mas_empty_alloc :: "kernel \<Rightarrow> ma_state \<Rightarrow> halt + (kernel \<times> ma_state)" where
  "mas_empty_alloc w mas =
     (if alloc mas = [] then Inr (w, mas)
      else case mas_next_alloc mas of
        Inl h \<Rightarrow> Inl h
      | Inr (mas', nd) \<Rightarrow> mas_empty_alloc (kmem_cache_free w nd) mas')"
  by pat_completeness auto
termination
  by (relation "measure (\<lambda>(w, mas). length (alloc mas))")
     (auto simp: mas_next_alloc_def Let_def split: if_splits)

definition mas_nomem :: "kernel \<Rightarrow> ma_state \<Rightarrow> halt + (kernel \<times> ma_state \<times> bool)" where
  "mas_nomem w mas =
     (if node mas \<noteq> MA_ERROR (- ENOMEM) then
        bnd (mas_empty_alloc w mas) (\<lambda>(w, mas). Inr (w, mas, False))
      else
        bnd (mas_node_node w mas) (\<lambda>(w, mas).
        if mas_get_alloc mas = 0 then Inr (w, mas, False)
        else Inr (w, mas\<lparr>node := MAS_START\<rparr>, True)))"

subsection \<open>Writing at the root\<close>

definition mas_set_height :: "kernel \<Rightarrow> ma_state \<Rightarrow> kernel" where
  "mas_set_height w mas =
     (let new_flags = ma_flags (tree w);
          new_flags = new_flags AND NOT (of_nat MAPLE_HEIGHT_MASK);
          new_flags = new_flags OR push_bit MAPLE_HEIGHT_OFFSET (ucast (depth mas))
      in w\<lparr>tree := (tree w)\<lparr>ma_flags := new_flags\<rparr>\<rparr>)"

definition mas_root_expand ::
    "kernel \<Rightarrow> ma_state \<Rightarrow> ulong \<Rightarrow> halt + (kernel \<times> ma_state \<times> nat)" where
  "mas_root_expand w mas entry =
     (let contents = ma_root (tree w); type = maple_leaf_64 in
      bnd (mas_node_cnt w mas 1) (\<lambda>(w, mas).
      if mas_is_err mas then Inr (w, mas, 0)
      else
        bnd (mas_next_alloc mas) (\<lambda>(mas, mn).
        let mas = mas\<lparr>node := mt_mk_node mn type\<rparr> in
        bnd (node_at w (mas_mn mas)) (\<lambda>n.
        let w = set_node w (mas_mn mas) (n\<lparr>parent := tree_addr w OR MA_ROOT_PARENT\<rparr>) in
        bnd (if contents \<noteq> 0
             then bnd (mte_set_rcu_slot w (node mas) 0 contents) (\<lambda>w. Inr (w, 1))
             else Inr (w, 0)) (\<lambda>(w, slt).
        bnd (if index mas = 0 \<and> slt \<noteq> 0 then Inr (w, slt - 1)
             else if index mas > 1
             then bnd (mte_set_pivot w (node mas) slt (index mas - 1)) (\<lambda>w. Inr (w, slt + 1))
             else Inr (w, slt)) (\<lambda>(w, slt).
        bnd (mte_set_rcu_slot w (node mas) slt entry) (\<lambda>w.
        bnd (mte_set_pivot w (node mas) slt (last_idx mas)) (\<lambda>w.
        let slt = slt + 1;
            w = w\<lparr>tree := (tree w)\<lparr>ma_root := mte_mk_root (node mas)\<rparr>\<rparr>;
            mas = mas\<lparr>depth := 1\<rparr>;
            w = mas_set_height w mas
        in Inr (w, mas, slt)))))))))"

definition ma_root_ptr ::
    "kernel \<Rightarrow> ma_state \<Rightarrow> ulong \<Rightarrow> bool \<Rightarrow> halt + (kernel \<times> ma_state \<times> nat)" where
  "ma_root_ptr w mas entry overwrite =
     (if xa_is_node (ma_root (tree w)) then Inr (w, mas, 0)
      else if ma_root (tree w) \<noteq> 0 \<and> last_idx mas = 0 \<and> \<not> overwrite
      then Inr (w, mas_set_err mas (- EEXIST), 0)
      else if last_idx mas \<noteq> 0 then mas_root_expand w mas entry
      else if entry AND 3 = 2 then mas_root_expand w mas entry
      else Inr (w\<lparr>tree := (tree w)\<lparr>ma_root := entry\<rparr>\<rparr>, mas, 1))"

subsection \<open>The write walk\<close>

definition mte_is_leaf :: "ulong \<Rightarrow> halt + bool" where
  "mte_is_leaf entry = bnd (mte_node_type entry) (\<lambda>type. Inr (ma_is_leaf type))"

definition mt_slot_count :: "ulong \<Rightarrow> halt + nat" where
  "mt_slot_count entry = bnd (mte_node_type entry) (\<lambda>type. Inr (mt_slots type))"

text \<open>The \<^verbatim>\<open>for\<close> loop of \<^verbatim>\<open>_mas_data_end\<close>; \<open>cnt\<close> is \<^verbatim>\<open>mt_slot_count(mas->node)\<close>.\<close>

function mas_data_end_loop ::
    "kernel \<Rightarrow> ma_state \<Rightarrow> maple_type \<Rightarrow> nat \<Rightarrow> nat \<Rightarrow> ulong \<Rightarrow> ulong
       \<Rightarrow> halt + (nat \<times> ulong)" where
  "mas_data_end_loop w mas type cnt slt piv prev_piv =
     (if slt < cnt then
        (case u_mas_get_safe_pivot w mas slt type of
           Inl h \<Rightarrow> Inl h
         | Inr piv' \<Rightarrow>
             if piv' \<ge> max_idx mas then Inr (slt, piv')
             else if piv' = 0 \<and> slt \<noteq> 0 then Inr (slt - 1, prev_piv)
             else mas_data_end_loop w mas type cnt (slt + 1) piv' piv')
      else Inr (slt, piv))"
  by pat_completeness auto
termination
  by (relation "measure (\<lambda>(w, mas, type, cnt, slt, piv, prev_piv). cnt - slt)") auto

definition u_mas_data_end :: "kernel \<Rightarrow> ma_state \<Rightarrow> maple_type \<Rightarrow> halt + (nat \<times> ulong)" where
  "u_mas_data_end w mas type =
     bnd (mt_slot_count (node mas)) (\<lambda>cnt.
     mas_data_end_loop w mas type cnt 0 (min_idx mas) (min_idx mas))"

definition mas_data_end :: "kernel \<Rightarrow> ma_state \<Rightarrow> halt + nat" where
  "mas_data_end w mas =
     bnd (mte_node_type (node mas)) (\<lambda>type.
     bnd (u_mas_data_end w mas type) (\<lambda>(slt, l). Inr slt))"

definition mas_is_span_wr :: "ma_state \<Rightarrow> ulong \<Rightarrow> ulong \<Rightarrow> halt + (ma_state \<times> bool)" where
  "mas_is_span_wr mas piv entry =
     (if span_enode mas \<noteq> 0 then Inr (mas, True)
      else if piv > last_idx mas then Inr (mas, False)
      else if last_idx mas = ULONG_MAX \<and> min_idx mas \<le> index mas
              \<and> last_idx mas = max_idx mas
      then Inr (mas, False)
      else
        bnd (mte_is_leaf (node mas)) (\<lambda>leaf.
        if \<not> leaf then
          (if last_idx mas < piv then Inr (mas, False)
           else if entry \<noteq> 0 \<and> piv = last_idx mas then Inr (mas, False)
           else Inr (mas\<lparr>span_enode := node mas\<rparr>, True))
        else
          (if last_idx mas < max_idx mas then Inr (mas, False)
           else if entry \<noteq> 0 \<and> last_idx mas = max_idx mas then Inr (mas, False)
           else Inr (mas\<lparr>span_enode := node mas\<rparr>, True))))"

definition mas_cnt_full :: "ma_state \<Rightarrow> ma_state" where
  "mas_cnt_full mas =
     (if full_cnt mas < 0 then mas\<lparr>full_cnt := 1\<rparr> else mas\<lparr>full_cnt := full_cnt mas + 1\<rparr>)"

definition mas_cnt_empty :: "ma_state \<Rightarrow> ma_state" where
  "mas_cnt_empty mas =
     (if full_cnt mas > 0 then mas\<lparr>full_cnt := - 1\<rparr> else mas\<lparr>full_cnt := full_cnt mas - 1\<rparr>)"

text \<open>The \<^verbatim>\<open>while (true)\<close> loop of \<^verbatim>\<open>mas_wr_walk\<close>, bounded by the number of levels.\<close>

fun mas_wr_walk_loop ::
    "nat \<Rightarrow> kernel \<Rightarrow> ma_state \<Rightarrow> ulong \<Rightarrow> ulong \<Rightarrow> ulong
       \<Rightarrow> halt + (ma_state \<times> ulong \<times> ulong \<times> bool)" where
  "mas_wr_walk_loop 0 w mas range_min range_max entry = Inl Out_Of_Fuel"
| "mas_wr_walk_loop (Suc fuel) w mas range_min range_max entry =
     bnd (mte_node_type (node mas)) (\<lambda>type.
     let mas = mas\<lparr>depth := depth mas + 1\<rparr> in
     bnd (mas_data_end w mas) (\<lambda>end_slot.
     bnd (mas_node_walk w mas type range_min range_max) (\<lambda>(mas, range_min, range_max, ok).
     if \<not> ok then Inr (mas, range_min, range_max, False)
     else
       bnd (mas_is_span_wr mas range_max entry) (\<lambda>(mas, span).
       if span then Inr (mas, range_min, range_max, ma_is_leaf type)
       else if ma_is_leaf type then Inr (mas, range_min, range_max, True)
       else
         let mas = (if end_slot \<le> mt_min_slots type then mas_cnt_empty mas
                    else if end_slot \<ge> mt_slots type - 1 then mas_cnt_full mas
                    else mas\<lparr>full_cnt := 0\<rparr>) in
         bnd (mas_get_rcu_slot w mas (mas_offset mas)) (\<lambda>next.
         let mas = mas\<lparr>max_idx := range_max, min_idx := range_min\<rparr> in
         if mt_is_empty next then Inr (mas, range_min, range_max, False)
         else
           bnd (mas_set_offset (mas\<lparr>node := next\<rparr>) 0) (\<lambda>mas.
           mas_wr_walk_loop fuel w mas range_min range_max entry))))))"

definition mas_wr_walk ::
    "nat \<Rightarrow> kernel \<Rightarrow> ma_state \<Rightarrow> ulong \<Rightarrow> ulong \<Rightarrow> ulong
       \<Rightarrow> halt + (ma_state \<times> ulong \<times> ulong \<times> bool)" where
  "mas_wr_walk fuel w mas range_min range_max entry =
     mas_wr_walk_loop fuel w (mas\<lparr>span_enode := 0, full_cnt := 0, depth := 0\<rparr>)
       range_min range_max entry"

subsection \<open>Parent words, dead nodes and gaps\<close>

definition mte_parent_shift :: "ulong \<Rightarrow> nat" where
  "mte_parent_shift par = (if par AND 2 = 0 then 2 else 3)"

definition mte_parent_range_enum :: "ulong \<Rightarrow> maple_type" where
  "mte_parent_range_enum par =
     (if par = 6 then maple_range_64
      else if par = 4 then maple_range_32
      else if par = 0 then maple_range_16
      else maple_dense)"

definition mte_parent_alloc_enum :: "ulong \<Rightarrow> maple_type" where
  "mte_parent_alloc_enum par = (if par = 6 then maple_arange_64 else maple_dense)"

definition mas_parent_enum :: "kernel \<Rightarrow> ma_state \<Rightarrow> ulong \<Rightarrow> halt + maple_type" where
  "mas_parent_enum w mas nd =
     bnd (mte_is_root w (node mas)) (\<lambda>root.
     bnd (if \<not> root
          then bnd (node_at w (mte_to_node nd)) (\<lambda>n.
               Inr (parent n AND (push_bit (mte_parent_shift (parent n)) 1 - 1)))
          else Inr 6) (\<lambda>par.
     if mt_is_alloc (tree w) then Inr (mte_parent_alloc_enum par)
     else Inr (mte_parent_range_enum par)))"

definition mte_set_parent :: "kernel \<Rightarrow> ulong \<Rightarrow> ulong \<Rightarrow> nat \<Rightarrow> halt + kernel" where
  "mte_set_parent w nd par slt =
     bnd (mte_node_type par) (\<lambda>ptype.
     let (type, slot_shift) =
           (case ptype of
              maple_range_64 \<Rightarrow> (6, 3)
            | maple_arange_64 \<Rightarrow> (6, 3)
            | maple_range_32 \<Rightarrow> (2, 3)
            | maple_range_16 \<Rightarrow> (0, 2)
            | _ \<Rightarrow> (0 :: ulong, 3 :: nat));
         val = par AND NOT 120;
         val = val OR push_bit slot_shift (of_nat slt);
         val = val OR type
     in bnd (node_at w (mte_to_node nd)) (\<lambda>n.
        Inr (set_node w (mte_to_node nd) (n\<lparr>parent := val\<rparr>))))"

definition mte_parent_slot :: "kernel \<Rightarrow> ulong \<Rightarrow> halt + nat" where
  "mte_parent_slot w nd =
     bnd (node_at w (mte_to_node nd)) (\<lambda>n.
     let val = parent n; slot_shift = mte_parent_shift val in
     if val AND 1 \<noteq> 0 then Inr 0
     else Inr (unat (drop_bit slot_shift (val AND 124))))"

definition mte_set_node_dead :: "kernel \<Rightarrow> ulong \<Rightarrow> halt + kernel" where
  "mte_set_node_dead w mn =
     bnd (node_at w (mte_to_node mn)) (\<lambda>n.
     Inr (set_node w (mte_to_node mn) (n\<lparr>parent := mte_to_node mn\<rparr>)))"

text \<open>
  \<^verbatim>\<open>ma_free_rcu\<close> marks the node dead and hands it to \<^verbatim>\<open>call_rcu\<close>; the node stays in
  memory, dead, until a grace period has passed, which is outside this model.
\<close>

definition ma_free_rcu :: "kernel \<Rightarrow> ulong \<Rightarrow> halt + kernel" where
  "ma_free_rcu w a =
     bnd (node_at w a) (\<lambda>n. Inr (set_node w a (n\<lparr>parent := a\<rparr>)))"

definition mte_free :: "kernel \<Rightarrow> ulong \<Rightarrow> halt + kernel" where
  "mte_free w enode = ma_free_rcu w (mte_to_node enode)"

text \<open>
  A \<^verbatim>\<open>struct ma_topiary\<close> is the list of dead encoded nodes from head to tail. In C the
  list is threaded through the dead nodes themselves: \<^verbatim>\<open>struct maple_topiary\<close> lays its
  \<^verbatim>\<open>next\<close> link over the word that follows the parent word. \<open>mat_set_next\<close> is the
  assignment \<^verbatim>\<open>mte_to_mat(enode)->next = val\<close>, seen through the variant of the node: the
  word is the first pivot where pivots are 64 bits wide, the first two or four pivots
  where they are 32 or 16 bits wide (little endian), and the first slot of a dense node.
\<close>

definition mat_set_next :: "kernel \<Rightarrow> ulong \<Rightarrow> ulong \<Rightarrow> halt + kernel" where
  "mat_set_next w enode val =
     bnd (mte_node_type enode) (\<lambda>type.
     bnd (node_at w (mte_to_node enode)) (\<lambda>n.
     Inr (set_node w (mte_to_node enode)
       (if type = maple_dense then n\<lparr>slot := (slot n)[0 := val]\<rparr>
        else if ma_pivot_bits type = 32 then
          n\<lparr>pivot := (pivot n)[0 := take_bit 32 val, 1 := drop_bit 32 val]\<rparr>
        else if ma_pivot_bits type = 16 then
          n\<lparr>pivot := (pivot n)[0 := take_bit 16 val, 1 := take_bit 16 (drop_bit 16 val),
                                  2 := take_bit 16 (drop_bit 32 val), 3 := drop_bit 48 val]\<rparr>
        else n\<lparr>pivot := (pivot n)[0 := val]\<rparr>))))"

definition mat_add :: "kernel \<Rightarrow> ulong list \<Rightarrow> ulong \<Rightarrow> halt + (kernel \<times> ulong list)" where
  "mat_add w mat dead_enode =
     bnd (mte_set_node_dead w dead_enode) (\<lambda>w.
     bnd (mat_set_next w dead_enode 0) (\<lambda>w.
     if mat = [] then Inr (w, [dead_enode])
     else
       bnd (mat_set_next w (last mat) dead_enode) (\<lambda>w.
       Inr (w, mat @ [dead_enode]))))"

fun mat_free :: "kernel \<Rightarrow> ulong list \<Rightarrow> bool \<Rightarrow> halt + kernel" where
  "mat_free w [] recursive = Inr w"
| "mat_free w (hd_enode # rest) recursive =
     (if recursive then Inl Not_Embedded
      else bnd (mte_free w hd_enode) (\<lambda>w. mat_free w rest recursive))"

definition mas_dup_state :: "ma_state \<Rightarrow> ma_state \<Rightarrow> halt + ma_state" where
  "mas_dup_state dst src =
     mas_set_offset
       (dst\<lparr>index := index src, last_idx := last_idx src, node := node src,
            max_idx := max_idx src, min_idx := min_idx src\<rparr>)
       (mas_offset src)"

definition mas_descend :: "kernel \<Rightarrow> ma_state \<Rightarrow> halt + ma_state" where
  "mas_descend w mas =
     (let slt = mas_offset mas in
      bnd (if slt \<noteq> 0
           then bnd (mas_get_safe_pivot w mas (slt - 1)) (\<lambda>p. Inr (mas\<lparr>min_idx := p + 1\<rparr>))
           else Inr mas) (\<lambda>mas.
      bnd (mas_get_safe_pivot w mas slt) (\<lambda>p.
      let mas = mas\<lparr>max_idx := p\<rparr> in
      bnd (mas_get_rcu_slot w mas (mas_offset mas)) (\<lambda>e. Inr (mas\<lparr>node := e\<rparr>)))))"

definition ma_get_gap :: "maple_node \<Rightarrow> nat \<Rightarrow> maple_type \<Rightarrow> halt + ulong" where
  "ma_get_gap mn g type =
     (case type of
        maple_arange_64 \<Rightarrow>
          if g < MAPLE_ARANGE64_SLOTS then Inr (gap mn ! g) else Inl Bad_Access
      | _ \<Rightarrow> Inr 0)"

definition mte_get_gap :: "kernel \<Rightarrow> ulong \<Rightarrow> nat \<Rightarrow> halt + ulong" where
  "mte_get_gap w mn g =
     bnd (mte_node_type mn) (\<lambda>type.
     bnd (node_at w (mte_to_node mn)) (\<lambda>n. ma_get_gap n g type))"

definition mte_set_gap :: "kernel \<Rightarrow> ulong \<Rightarrow> nat \<Rightarrow> ulong \<Rightarrow> halt + kernel" where
  "mte_set_gap w mn g val =
     bnd (mte_node_type mn) (\<lambda>type.
     case type of
       maple_arange_64 \<Rightarrow>
         if g < MAPLE_ARANGE64_SLOTS then
           bnd (node_at w (mte_to_node mn)) (\<lambda>n.
           Inr (set_node w (mte_to_node mn) (n\<lparr>gap := (gap n)[g := val]\<rparr>)))
         else Inl Bad_Access
     | _ \<Rightarrow> Inr w)"

text \<open>The two loops of \<^verbatim>\<open>mas_leaf_max_gap\<close>: over a dense node, and over a node with
  pivots.\<close>

function mas_leaf_max_gap_dense ::
    "kernel \<Rightarrow> ma_state \<Rightarrow> nat \<Rightarrow> nat \<Rightarrow> ulong \<Rightarrow> ulong \<Rightarrow> halt + ulong" where
  "mas_leaf_max_gap_dense w mas cnt i g max_gap =
     (if i < cnt then
        (case mas_get_rcu_slot w mas i of
           Inl h \<Rightarrow> Inl h
         | Inr entry \<Rightarrow>
             if \<not> mt_is_empty entry
             then mas_leaf_max_gap_dense w mas cnt (i + 1) 0 (if g > max_gap then g else max_gap)
             else mas_leaf_max_gap_dense w mas cnt (i + 1) (g + 1) max_gap)
      else Inr (if g > max_gap then g else max_gap))"
  by pat_completeness auto
termination
  by (relation "measure (\<lambda>(w, mas, cnt, i, g, max_gap). cnt - i)") auto

function mas_leaf_max_gap_loop ::
    "kernel \<Rightarrow> ma_state \<Rightarrow> maple_type \<Rightarrow> nat \<Rightarrow> ulong \<Rightarrow> ulong \<Rightarrow> halt + ulong" where
  "mas_leaf_max_gap_loop w mas mt i pstart max_gap =
     (if i < mt_slots mt then
        (case mas_get_safe_pivot w mas i of
           Inl h \<Rightarrow> Inl h
         | Inr pend0 \<Rightarrow>
             (case mas_get_rcu_slot w mas i of
                Inl h \<Rightarrow> Inl h
              | Inr entry \<Rightarrow>
                  let pend = (if pend0 = 0 \<and> i \<noteq> 0 then max_idx mas else pend0);
                      g = pend - pstart + 1;
                      max_gap = (if \<not> mt_is_empty entry then max_gap
                                 else if g > max_gap then g else max_gap)
                  in if pend \<ge> max_idx mas then Inr max_gap
                     else mas_leaf_max_gap_loop w mas mt (i + 1) (pend + 1) max_gap))
      else Inr max_gap)"
  by pat_completeness auto
termination
  by (relation "measure (\<lambda>(w, mas, mt, i, pstart, max_gap). mt_slots mt - i)") auto

definition mas_leaf_max_gap :: "kernel \<Rightarrow> ma_state \<Rightarrow> halt + ulong" where
  "mas_leaf_max_gap w mas =
     bnd (mte_node_type (node mas)) (\<lambda>mt.
     if ma_is_dense mt then
       bnd (mt_slot_count (node mas)) (\<lambda>cnt. mas_leaf_max_gap_dense w mas cnt 0 0 0)
     else mas_leaf_max_gap_loop w mas mt 0 (min_idx mas) 0)"

function mas_max_gap_loop ::
    "kernel \<Rightarrow> ma_state \<Rightarrow> nat \<Rightarrow> nat \<Rightarrow> ulong \<Rightarrow> halt + ulong" where
  "mas_max_gap_loop w mas cnt i max_gap =
     (if i < cnt then
        (case mte_get_gap w (node mas) i of
           Inl h \<Rightarrow> Inl h
         | Inr g \<Rightarrow> mas_max_gap_loop w mas cnt (i + 1) (if g > max_gap then g else max_gap))
      else Inr max_gap)"
  by pat_completeness auto
termination
  by (relation "measure (\<lambda>(w, mas, cnt, i, max_gap). cnt - i)") auto

definition mas_max_gap :: "kernel \<Rightarrow> ma_state \<Rightarrow> halt + ulong" where
  "mas_max_gap w mas =
     bnd (mt_slot_count (node mas)) (\<lambda>cnt. mas_max_gap_loop w mas cnt 0 0)"

definition mas_find_gap :: "kernel \<Rightarrow> ma_state \<Rightarrow> halt + ulong" where
  "mas_find_gap w mas =
     bnd (mte_is_leaf (node mas)) (\<lambda>leaf.
     if leaf then mas_leaf_max_gap w mas else mas_max_gap w mas)"

text \<open>
  \<^verbatim>\<open>mas_update_gap\<close>. When the gap recorded in the parent differs from the node's, the
  C code ascends with \<^verbatim>\<open>mas_parent_gap\<close>; that ascent is not embedded.
\<close>

definition mas_update_gap :: "kernel \<Rightarrow> ma_state \<Rightarrow> halt + kernel" where
  "mas_update_gap w mas =
     (if \<not> mt_is_alloc (tree w) then Inr w
      else
        bnd (mte_is_root w (node mas)) (\<lambda>root.
        if root then Inr w
        else
          bnd (mte_is_leaf (node mas)) (\<lambda>leaf.
          bnd (if leaf then mas_leaf_max_gap w mas else mas_max_gap w mas) (\<lambda>max_gap.
          bnd (mte_parent_slot w (node mas)) (\<lambda>pslot.
          bnd (mte_parent w (node mas)) (\<lambda>par.
          bnd (mas_parent_enum w mas (node mas)) (\<lambda>ptype.
          bnd (node_at w par) (\<lambda>pn.
          bnd (ma_get_gap pn pslot ptype) (\<lambda>p_gap.
          if p_gap \<noteq> max_gap then Inl Not_Embedded else Inr w)))))))))"

subsection \<open>Replacing a node\<close>

function mas_adopt_children_loop ::
    "kernel \<Rightarrow> ulong \<Rightarrow> maple_type \<Rightarrow> nat \<Rightarrow> halt + kernel" where
  "mas_adopt_children_loop w par type slt =
     (let slot_cnt = mt_slots type in
      if slt < slot_cnt then
        (case (if slt \<noteq> 0 \<and> slt < slot_cnt - 1
               then bnd (u_mte_get_pivot w par slt type) (\<lambda>p. Inr (p = 0))
               else Inr False) of
           Inl h \<Rightarrow> Inl h
         | Inr True \<Rightarrow> Inr w
         | Inr False \<Rightarrow>
             (case bnd (node_at w (mte_to_node par)) (\<lambda>n. ma_get_rcu_slot n slt type) of
                Inl h \<Rightarrow> Inl h
              | Inr child \<Rightarrow>
                  (case (if \<not> mt_is_empty child then mte_set_parent w child par slt
                         else Inr w) of
                     Inl h \<Rightarrow> Inl h
                   | Inr w' \<Rightarrow> mas_adopt_children_loop w' par type (slt + 1))))
      else Inr w)"
  by pat_completeness auto
termination
  by (relation "measure (\<lambda>(w, par, type, slt). mt_slots type - slt)") auto

definition mas_adopt_children :: "kernel \<Rightarrow> ma_state \<Rightarrow> ulong \<Rightarrow> halt + kernel" where
  "mas_adopt_children w mas par =
     bnd (mte_node_type par) (\<lambda>type. mas_adopt_children_loop w par type 0)"

definition mas_replace :: "kernel \<Rightarrow> ma_state \<Rightarrow> bool \<Rightarrow> halt + kernel" where
  "mas_replace w mas advanced =
     (let mn = mas_mn mas in
      bnd (mte_is_root w (node mas)) (\<lambda>root.
      bnd (if root then Inr (0, 0, ma_root (tree w))
           else
             bnd (mas_parent_enum w mas (node mas)) (\<lambda>ptype.
             bnd (mte_parent w (node mas)) (\<lambda>p.
             let par = mt_mk_node p ptype in
             bnd (mte_parent_slot w (node mas)) (\<lambda>slt.
             bnd (mte_get_rcu_slot w par slt) (\<lambda>prev. Inr (par, slt, prev)))))) (\<lambda>(par, slt, prev).
      if mte_to_node prev = mn then Inr w
      else
        bnd (mte_is_leaf (node mas)) (\<lambda>leaf.
        bnd (if \<not> advanced \<and> \<not> leaf then mas_adopt_children w mas (node mas) else Inr w) (\<lambda>w.
        bnd (mte_is_root w (node mas)) (\<lambda>root.
        bnd (if root then
               bnd (node_at w mn) (\<lambda>n.
               let w = set_node w mn (n\<lparr>parent := tree_addr w OR MA_ROOT_PARENT\<rparr>);
                   w = w\<lparr>tree := (tree w)\<lparr>ma_root := mte_mk_root (node mas)\<rparr>\<rparr>
               in Inr (mas_set_height w mas))
             else mte_set_rcu_slot w par slt (node mas)) (\<lambda>w.
        if \<not> advanced then mte_free w prev else Inr w)))))))"

function mas_new_child_loop ::
    "kernel \<Rightarrow> ma_state \<Rightarrow> ma_state \<Rightarrow> nat \<Rightarrow> nat \<Rightarrow> halt + (ma_state \<times> ma_state \<times> bool)" where
  "mas_new_child_loop w mas child slt end_slot =
     (if slt < end_slot then
        (case mas_get_rcu_slot w mas slt of
           Inl h \<Rightarrow> Inl h
         | Inr entry \<Rightarrow>
             if entry = 0 then Inr (mas, child, False)
             else
               (case mte_parent w entry of
                  Inl h \<Rightarrow> Inl h
                | Inr p \<Rightarrow>
                    if p = mas_mn mas then
                      bnd (mas_set_offset mas slt) (\<lambda>mas.
                      bnd (mas_dup_state child mas) (\<lambda>child.
                      bnd (mas_set_offset mas (slt + 1)) (\<lambda>mas.
                      bnd (mas_descend w child) (\<lambda>child. Inr (mas, child, True)))))
                    else mas_new_child_loop w mas child (slt + 1) end_slot))
      else Inr (mas, child, False))"
  by pat_completeness auto
termination
  by (relation "measure (\<lambda>(w, mas, child, slt, end_slot). end_slot - slt)") auto

definition mas_new_child ::
    "kernel \<Rightarrow> ma_state \<Rightarrow> ma_state \<Rightarrow> halt + (ma_state \<times> ma_state \<times> bool)" where
  "mas_new_child w mas child =
     bnd (mt_slot_count (node mas)) (\<lambda>end_slot.
     mas_new_child_loop w mas child (mas_offset mas) end_slot)"

text \<open>
  \<^verbatim>\<open>mas_descend_adopt\<close> keeps two arrays of three cursors, \<^verbatim>\<open>list\<close> and \<^verbatim>\<open>next\<close>.
  \<open>adopt_children_of\<close> is the body of its \<^verbatim>\<open>for\<close> loop for one \<open>i\<close>, with the inner
  \<^verbatim>\<open>while ((n < 3) && mas_new_child(...))\<close> as \<open>adopt_next_children\<close>. The entries of
  \<^verbatim>\<open>next\<close> that C leaves uninitialised start as the zero cursor here; only their node is
  read, after it has been written.
\<close>

function adopt_next_children ::
    "kernel \<Rightarrow> ma_state \<Rightarrow> ma_state list \<Rightarrow> nat \<Rightarrow> halt + (ma_state \<times> ma_state list \<times> nat)" where
  "adopt_next_children w mas nxt n =
     (if n < 3 then
        (case mas_new_child w mas (nxt ! n) of
           Inl h \<Rightarrow> Inl h
         | Inr (mas', child, found) \<Rightarrow>
             if found then adopt_next_children w mas' (nxt[n := child]) (n + 1)
             else Inr (mas', nxt[n := child], n))
      else Inr (mas, nxt, n))"
  by pat_completeness auto
termination
  by (relation "measure (\<lambda>(w, mas, nxt, n). 3 - n)") auto

definition adopt_children_of ::
    "nat \<Rightarrow> kernel \<times> ma_state list \<times> ma_state list \<times> nat
       \<Rightarrow> halt + (kernel \<times> ma_state list \<times> ma_state list \<times> nat)" where
  "adopt_children_of i st =
     (case st of (w, lst, nxt, n) \<Rightarrow>
        if mas_is_none (lst ! i) then Inr (w, lst, nxt, n)
        else if i \<noteq> 0 \<and> node (lst ! (i - 1)) = node (lst ! i) then Inr (w, lst, nxt, n)
        else
          bnd (adopt_next_children w (lst ! i) nxt n) (\<lambda>(mas, nxt, n).
          let lst = lst[i := mas] in
          bnd (mas_adopt_children w (lst ! i) (node (lst ! i))) (\<lambda>w.
          Inr (w, lst, nxt, n))))"

definition zero_cursor :: ma_state where
  "zero_cursor =
     \<lparr>index = 0, last_idx = 0, node = 0, min_idx = 0, max_idx = 0,
      alloc = [], alloc_req = 0, span_enode = 0, full_cnt = 0, depth = 0\<rparr>"

fun mas_descend_adopt_loop ::
    "nat \<Rightarrow> kernel \<Rightarrow> ma_state list \<Rightarrow> ma_state list \<Rightarrow> halt + kernel" where
  "mas_descend_adopt_loop 0 w lst nxt = Inl Out_Of_Fuel"
| "mas_descend_adopt_loop (Suc fuel) w lst nxt =
     bnd (mte_is_leaf (node (lst ! 0))) (\<lambda>leaf.
     if leaf then Inr w
     else
       bnd (adopt_children_of 0 (w, lst, nxt, 0)) (\<lambda>st.
       bnd (adopt_children_of 1 st) (\<lambda>st.
       bnd (adopt_children_of 2 st) (\<lambda>(w, lst, nxt, n).
       let nxt = map (\<lambda>k. if k \<ge> n then (nxt ! k)\<lparr>node := MAS_NONE\<rparr> else nxt ! k) [0, 1, 2] in
       bnd (mas_set_offset (nxt ! 0) 0) (\<lambda>n0.
       bnd (mas_set_offset (nxt ! 1) 0) (\<lambda>n1.
       bnd (mas_set_offset (nxt ! 2) 0) (\<lambda>n2.
       bnd (mas_dup_state (lst ! 0) n0) (\<lambda>l0.
       bnd (mas_dup_state (lst ! 1) n1) (\<lambda>l1.
       bnd (mas_dup_state (lst ! 2) n2) (\<lambda>l2.
       mas_descend_adopt_loop fuel w [l0, l1, l2] [n0, n1, n2]))))))))))"

definition mas_descend_adopt :: "nat \<Rightarrow> kernel \<Rightarrow> ma_state \<Rightarrow> halt + kernel" where
  "mas_descend_adopt fuel w mas =
     bnd (mas_dup_state zero_cursor mas) (\<lambda>c.
     bnd (mas_set_offset c 0) (\<lambda>c.
     bnd (mas_dup_state zero_cursor mas) (\<lambda>n0.
     mas_descend_adopt_loop fuel w [c, c, c] [n0, zero_cursor, zero_cursor])))"

definition mas_wmb_replace ::
    "nat \<Rightarrow> kernel \<Rightarrow> ma_state \<Rightarrow> ulong list \<Rightarrow> halt + kernel" where
  "mas_wmb_replace fuel w mas free_list =
     bnd (mas_replace w mas True) (\<lambda>w.
     bnd (mte_is_leaf (node mas)) (\<lambda>leaf.
     bnd (if \<not> leaf then mas_descend_adopt fuel w mas else Inr w) (\<lambda>w.
     bnd (mat_free w free_list False) (\<lambda>w.
     if leaf then Inr w else mas_update_gap w mas))))"

subsection \<open>The big node\<close>

text \<open>
  \<^verbatim>\<open>struct maple_big_node\<close>, a local buffer; its fields \<^verbatim>\<open>slot\<close>, \<^verbatim>\<open>pivot\<close>,
  \<^verbatim>\<open>gap\<close>, \<^verbatim>\<open>min\<close> and \<^verbatim>\<open>type\<close> carry the suffix \<open>_b\<close>. Its arrays hold
  \<^verbatim>\<open>MAPLE_BIG_NODE_SLOTS\<close> = 34 elements in C; the model does not check indices into
  them. \<open>zero_big_node\<close> is the buffer after \<^verbatim>\<open>memset(&b_node, 0, ...)\<close>.
\<close>

record maple_big_node =
  slot_b :: "nat \<Rightarrow> ulong"
  pivot_b :: "nat \<Rightarrow> ulong"
  gap_b :: "nat \<Rightarrow> ulong"
  min_b :: ulong
  b_end :: nat
  type_b :: maple_type

definition zero_big_node :: maple_big_node where
  "zero_big_node =
     \<lparr>slot_b = (\<lambda>_. 0), pivot_b = (\<lambda>_. 0), gap_b = (\<lambda>_. 0), min_b = 0, b_end = 0,
      type_b = maple_dense\<rparr>"

definition mt_pivot_count :: "ulong \<Rightarrow> halt + nat" where
  "mt_pivot_count entry = bnd (mte_node_type entry) (\<lambda>type. Inr (mt_pivots type))"

definition mt_min_slot_cnt :: "ulong \<Rightarrow> halt + nat" where
  "mt_min_slot_cnt entry = bnd (mte_node_type entry) (\<lambda>type. Inr (mt_min_slots type))"

definition mab_middle_node :: "maple_big_node \<Rightarrow> nat \<Rightarrow> nat \<Rightarrow> bool" where
  "mab_middle_node b_node splt slot_cnt =
     (let sz = b_end b_node in
      if sz \<ge> 2 * slot_cnt then True
      else if slot_b b_node splt = 0 \<and> sz \<ge> 2 * slot_cnt - 1 then True
      else False)"

text \<open>The split position is an \<^verbatim>\<open>unsigned char\<close> here: decrementing 0 gives 255.\<close>

definition mab_no_null_split :: "maple_big_node \<Rightarrow> nat \<Rightarrow> nat \<Rightarrow> nat" where
  "mab_no_null_split b_node splt slot_cnt =
     (if slot_b b_node splt = 0 then
        (if splt < slot_cnt - 1 \<and> int (b_end b_node) - int splt > int (mt_min_slots (type_b b_node))
         then splt + 1
         else (splt + 255) mod 256)
      else splt)"

function mab_calc_split_loop :: "maple_big_node \<Rightarrow> nat \<Rightarrow> nat \<Rightarrow> nat" where
  "mab_calc_split_loop b_node slot_cnt splt =
     (if pivot_b b_node splt - min_b b_node < of_nat (slot_cnt - 1)
         \<and> splt < slot_cnt - 1
         \<and> int (b_end b_node) - int splt > int (mt_min_slots (type_b b_node)) - 1
      then mab_calc_split_loop b_node slot_cnt (splt + 1)
      else splt)"
  by pat_completeness auto
termination
  by (relation "measure (\<lambda>(b_node, slot_cnt, splt). slot_cnt - 1 - splt)") auto

text \<open>\<^verbatim>\<open>mab_calc_split\<close> returns the split and, second, \<^verbatim>\<open>*mid_split\<close>.\<close>

definition mab_calc_split :: "maple_big_node \<Rightarrow> nat \<times> nat" where
  "mab_calc_split b_node =
     (let splt = b_end b_node div 2;
          slot_cnt = mt_slots (type_b b_node);
          (splt, mid_split) =
            (if mab_middle_node b_node splt slot_cnt
             then (b_end b_node div 3, (b_end b_node div 3 * 2) mod 256)
             else (mab_calc_split_loop b_node slot_cnt splt, 0));
          splt = mab_no_null_split b_node splt slot_cnt
      in if mid_split = 0 then (splt, mid_split)
         else (splt, mab_no_null_split b_node mid_split slot_cnt))"

function mas_mab_cp_loop ::
    "kernel \<Rightarrow> ma_state \<Rightarrow> nat \<Rightarrow> maple_big_node \<Rightarrow> nat \<Rightarrow> nat
       \<Rightarrow> halt + (maple_big_node \<times> nat)" where
  "mas_mab_cp_loop w mas mas_end b_node i j =
     (if i \<le> mas_end then
        (case
           bnd (mas_get_rcu_slot w mas i) (\<lambda>s.
           let b_node = b_node\<lparr>slot_b := (slot_b b_node)(j := s)\<rparr> in
           bnd (mte_is_leaf (node mas)) (\<lambda>leaf.
           bnd (if \<not> leaf \<and> mt_is_alloc (tree w)
                then bnd (mte_get_gap w (node mas) i) (\<lambda>g.
                     Inr (b_node\<lparr>gap_b := (gap_b b_node)(j := g)\<rparr>))
                else Inr b_node) (\<lambda>b_node.
           bnd (mt_pivot_count (node mas)) (\<lambda>pc.
           if i < pc then
             bnd (mas_get_safe_pivot w mas i) (\<lambda>p.
             let b_node = b_node\<lparr>pivot_b := (pivot_b b_node)(j := p)\<rparr> in
             Inr (b_node, (j \<noteq> 0 \<and> pivot_b b_node j = 0) \<or> max_idx mas = pivot_b b_node j))
           else
             Inr (b_node\<lparr>pivot_b := (pivot_b b_node)(j := max_idx mas)\<rparr>, True))))) of
           Inl h \<Rightarrow> Inl h
         | Inr (b_node', stop) \<Rightarrow>
             if stop then Inr (b_node', j + 1)
             else mas_mab_cp_loop w mas mas_end b_node' (i + 1) (j + 1))
      else Inr (b_node, j))"
  by pat_completeness auto
termination
  by (relation "measure (\<lambda>(w, mas, mas_end, b_node, i, j). mas_end + 1 - i)") auto

definition mas_mab_cp ::
    "kernel \<Rightarrow> ma_state \<Rightarrow> nat \<Rightarrow> nat \<Rightarrow> maple_big_node \<Rightarrow> nat \<Rightarrow> halt + maple_big_node" where
  "mas_mab_cp w mas mas_start_slot mas_end b_node mab_start =
     bnd (mas_mab_cp_loop w mas mas_end b_node mas_start_slot mab_start) (\<lambda>(b_node, j).
     Inr (b_node\<lparr>b_end := j\<rparr>))"

function mab_mas_cp_loop ::
    "maple_big_node \<Rightarrow> nat \<Rightarrow> kernel \<Rightarrow> ma_state \<Rightarrow> nat \<Rightarrow> nat
       \<Rightarrow> halt + (kernel \<times> ma_state)" where
  "mab_mas_cp_loop b_node mab_end w mas i j =
     (if i \<le> mab_end then
        (if j \<noteq> 0 \<and> pivot_b b_node i = 0 then Inr (w, mas)
         else
           (case
              (let mas = mas\<lparr>max_idx := pivot_b b_node i\<rparr> in
               bnd (mte_set_rcu_slot w (node mas) j (slot_b b_node i)) (\<lambda>w.
               bnd (mt_pivot_count (node mas)) (\<lambda>pc.
               bnd (if j < pc then mte_set_pivot w (node mas) j (pivot_b b_node i)
                    else Inr w) (\<lambda>w.
               bnd (mte_is_leaf (node mas)) (\<lambda>leaf.
               bnd (if \<not> leaf \<and> mt_is_alloc (tree w)
                    then mte_set_gap w (node mas) j (gap_b b_node i)
                    else Inr w) (\<lambda>w. Inr (w, mas))))))) of
              Inl h \<Rightarrow> Inl h
            | Inr (w', mas') \<Rightarrow> mab_mas_cp_loop b_node mab_end w' mas' (i + 1) (j + 1)))
      else Inr (w, mas))"
  by pat_completeness auto
termination
  by (relation "measure (\<lambda>(b_node, mab_end, w, mas, i, j). mab_end + 1 - i)") auto

definition mab_mas_cp ::
    "maple_big_node \<Rightarrow> nat \<Rightarrow> nat \<Rightarrow> kernel \<Rightarrow> ma_state \<Rightarrow> halt + (kernel \<times> ma_state)" where
  "mab_mas_cp b_node mab_start mab_end w mas =
     mab_mas_cp_loop b_node mab_end w mas mab_start 0"

text \<open>The \<^verbatim>\<open>do ... while\<close> loop of \<^verbatim>\<open>mas_store_b_node\<close> that skips the overwritten
  slots; it returns the slot reached and its pivot.\<close>

function mas_store_b_node_skip ::
    "kernel \<Rightarrow> ma_state \<Rightarrow> nat \<Rightarrow> nat \<Rightarrow> halt + (nat \<times> ulong)" where
  "mas_store_b_node_skip w mas end_slot slt =
     (case mas_get_safe_pivot w mas (slt + 1) of
        Inl h \<Rightarrow> Inl h
      | Inr piv \<Rightarrow>
          if piv \<le> last_idx mas \<and> slt + 1 \<le> end_slot
          then mas_store_b_node_skip w mas end_slot (slt + 1)
          else Inr (slt + 1, piv))"
  by pat_completeness auto
termination
  by (relation "measure (\<lambda>(w, mas, end_slot, slt). end_slot - slt)") auto

text \<open>\<^verbatim>\<open>mas_store_b_node\<close> returns the big node and, second, its result \<^verbatim>\<open>b_end\<close>.\<close>

definition mas_store_b_node ::
    "kernel \<Rightarrow> ma_state \<Rightarrow> maple_big_node \<Rightarrow> ulong \<Rightarrow> halt + (maple_big_node \<times> nat)" where
  "mas_store_b_node w mas b_node entry =
     (let slt = mas_offset mas in
      bnd (mas_data_end w mas) (\<lambda>end_slot.
      bnd (mas_get_rcu_slot w mas slt) (\<lambda>contents.
      bnd (if slt \<noteq> 0 then
             bnd (mas_mab_cp w mas 0 (slt - 1) b_node 0) (\<lambda>b_node.
             Inr (b_node, b_end b_node, pivot_b b_node (b_end b_node - 1)))
           else Inr (b_node, 0, min_idx mas - 1)) (\<lambda>(b_node, be, piv).
      let (b_node, be) =
            (if piv + 1 < index mas then
               (let b_node = b_node\<lparr>slot_b := (slot_b b_node)(be := contents)\<rparr>;
                    b_node = (if contents = 0
                              then b_node\<lparr>gap_b := (gap_b b_node)(be := index mas - 1 - piv)\<rparr>
                              else b_node);
                    b_node = b_node\<lparr>pivot_b := (pivot_b b_node)(be := index mas - 1)\<rparr>
                in (b_node, be + 1))
             else (b_node, be));
          b_node = b_node\<lparr>slot_b := (slot_b b_node)(be := entry)\<rparr>;
          b_node = b_node\<lparr>pivot_b := (pivot_b b_node)(be := last_idx mas)\<rparr>
      in
      bnd (mas_get_safe_pivot w mas slt) (\<lambda>piv.
      let (b_node, be, piv) =
            (if piv > last_idx mas then
               (let be = be + 1;
                    b_node = b_node\<lparr>slot_b := (slot_b b_node)(be := contents)\<rparr>;
                    b_node = (if contents = 0
                              then b_node\<lparr>gap_b := (gap_b b_node)(be := piv - last_idx mas + 1)\<rparr>
                              else b_node);
                    b_node = b_node\<lparr>pivot_b := (pivot_b b_node)(be := piv)\<rparr>
                in (b_node, be, piv))
             else (b_node, be, last_idx mas))
      in
      if piv \<ge> max_idx mas then Inr (b_node, be)
      else
        bnd (mas_store_b_node_skip w mas end_slot slt) (\<lambda>(slt, piv).
        if piv > last_idx mas then
          (if slt > end_slot then
             (let be = be + 1;
                  b_node = b_node\<lparr>slot_b := (slot_b b_node)(be := 0)\<rparr>;
                  b_node = b_node\<lparr>pivot_b := (pivot_b b_node)(be := piv)\<rparr>
              in Inr (b_node, be))
           else
             bnd (mas_mab_cp w mas slt (end_slot + 1) b_node (be + 1)) (\<lambda>b_node.
             Inr (b_node, b_end b_node - 1)))
        else Inr (b_node, be)))))))"

definition mab_set_b_end ::
    "kernel \<Rightarrow> maple_big_node \<Rightarrow> ma_state \<Rightarrow> ulong \<Rightarrow> halt + maple_big_node" where
  "mab_set_b_end w b_node mas entry =
     (if entry = 0 then Inr b_node
      else
        let b_node = b_node\<lparr>slot_b := (slot_b b_node)(b_end b_node := entry)\<rparr> in
        bnd (if mt_is_alloc (tree w)
             then bnd (mas_find_gap w mas) (\<lambda>g.
                  Inr (b_node\<lparr>gap_b := (gap_b b_node)(b_end b_node := g)\<rparr>))
             else Inr b_node) (\<lambda>b_node.
        Inr (b_node\<lparr>pivot_b := (pivot_b b_node)(b_end b_node := max_idx mas),
                     b_end := b_end b_node + 1\<rparr>)))"

definition mas_can_append :: "ma_state \<Rightarrow> maple_big_node \<Rightarrow> nat \<Rightarrow> nat \<Rightarrow> bool" where
  "mas_can_append mas bn slot_cnt end_slot =
     (if b_end bn \<ge> slot_cnt then False
      else if b_end bn \<le> end_slot then False
      else if last_idx mas = 0 then False
      else if pivot_b bn (b_end bn) = last_idx mas then True
      else if pivot_b bn (b_end bn - 1) = last_idx mas \<and> slot_b bn (b_end bn) = 0 then True
      else False)"

subsection \<open>Splitting a node\<close>

text \<open>
  \<^verbatim>\<open>struct maple_subtree_state\<close> as \<^verbatim>\<open>mas_split\<close> uses it: the cursors it points to,
  the list of nodes to free and the big node, by value. \<^verbatim>\<open>mas_split\<close> leaves its
  fields \<^verbatim>\<open>m\<close> and \<^verbatim>\<open>destroy\<close> unset and they are left out.
\<close>

record maple_subtree_state =
  mast_orig_l :: ma_state
  mast_orig_r :: ma_state
  mast_l :: ma_state
  mast_r :: ma_state
  mast_free :: "ulong list"
  mast_bn :: maple_big_node

definition mas_new_ma_node :: "ma_state \<Rightarrow> maple_big_node \<Rightarrow> halt + (ma_state \<times> ulong)" where
  "mas_new_ma_node mas b_node =
     bnd (mas_next_alloc mas) (\<lambda>(mas, mn). Inr (mas, mt_mk_node mn (type_b b_node)))"

text \<open>
  The siblings of a node. At the root, and for \<^verbatim>\<open>mas_prev_sibling\<close> in the first slot
  of its parent, there is none; finding one takes \<^verbatim>\<open>mas_ascend\<close>, which is not embedded.
\<close>

definition mas_prev_sibling :: "kernel \<Rightarrow> ma_state \<Rightarrow> halt + (ma_state \<times> bool)" where
  "mas_prev_sibling w mas =
     bnd (mte_parent_slot w (node mas)) (\<lambda>p_slot.
     bnd (mte_is_root w (node mas)) (\<lambda>root.
     if root then Inr (mas, False)
     else if p_slot = 0 then Inr (mas, False)
     else Inl Not_Embedded))"

definition mas_next_sibling :: "kernel \<Rightarrow> ma_state \<Rightarrow> halt + (ma_state \<times> bool)" where
  "mas_next_sibling w mas =
     bnd (mte_parent_slot w (node mas)) (\<lambda>p_slot.
     bnd (mte_is_root w (node mas)) (\<lambda>root.
     if root then Inr (mas, False)
     else Inl Not_Embedded))"

text \<open>\<^verbatim>\<open>mas_push_data\<close> up to the test for a sibling; pushing data into one is not
  embedded. Without a sibling nothing but the local cursor has changed.\<close>

definition mas_push_data ::
    "kernel \<Rightarrow> ma_state \<Rightarrow> int \<Rightarrow> maple_subtree_state \<Rightarrow> bool \<Rightarrow> halt + bool" where
  "mas_push_data w mas height mast left =
     bnd (mas_dup_state (MA_STATE (index mas) (last_idx mas)) (mast_l mast)) (\<lambda>tmp_mas.
     let tmp_mas = tmp_mas\<lparr>node := node mas\<rparr> in
     bnd (if left then mas_prev_sibling w tmp_mas else mas_next_sibling w tmp_mas)
       (\<lambda>(tmp_mas, found).
     if \<not> found then Inr False else Inl Not_Embedded))"

definition mas_push_left ::
    "kernel \<Rightarrow> ma_state \<Rightarrow> int \<Rightarrow> maple_subtree_state \<Rightarrow> halt + bool" where
  "mas_push_left w mas height mast = mas_push_data w mas height mast True"

definition mas_push_right ::
    "kernel \<Rightarrow> ma_state \<Rightarrow> int \<Rightarrow> maple_subtree_state \<Rightarrow> halt + bool" where
  "mas_push_right w mas height mast = mas_push_data w mas height mast False"

definition u_mas_split_final_node ::
    "kernel \<Rightarrow> maple_subtree_state \<Rightarrow> ma_state \<Rightarrow> int
       \<Rightarrow> halt + (kernel \<times> maple_subtree_state \<times> ma_state \<times> bool)" where
  "u_mas_split_final_node w mast mas height =
     bnd (mte_is_root w (node mas)) (\<lambda>root.
     let (mast, mas) =
           (if root then
              (mast\<lparr>mast_bn := (mast_bn mast)\<lparr>type_b :=
                  (if mt_is_alloc (tree w) then maple_arange_64 else maple_range_64)\<rparr>\<rparr>,
               mas\<lparr>depth := word_of_int height\<rparr>)
            else (mast, mas))
     in
     bnd (mas_new_ma_node mas (mast_bn mast)) (\<lambda>(mas, ancestor).
     bnd (mte_set_parent w (node (mast_l mast)) ancestor (mas_offset (mast_l mast))) (\<lambda>w.
     bnd (mte_set_parent w (node (mast_r mast)) ancestor (mas_offset (mast_r mast))) (\<lambda>w.
     bnd (node_at w (mas_mn mas)) (\<lambda>old.
     bnd (node_at w (mte_to_node ancestor)) (\<lambda>an.
     let w = set_node w (mte_to_node ancestor) (an\<lparr>parent := parent old\<rparr>);
         l = (mast_l mast)\<lparr>node := ancestor\<rparr>
     in
     bnd (mab_mas_cp (mast_bn mast) 0 (mt_slots (type_b (mast_bn mast)) - 1) w l) (\<lambda>(w, l).
     Inr (w, mast\<lparr>mast_l := l\<rparr>, mas, True))))))))"

definition mas_split_final_node ::
    "kernel \<Rightarrow> maple_subtree_state \<Rightarrow> ma_state \<Rightarrow> int
       \<Rightarrow> halt + (kernel \<times> maple_subtree_state \<times> ma_state \<times> bool)" where
  "mas_split_final_node w mast mas height =
     (if height \<le> full_cnt mas then Inr (w, mast, mas, False)
      else u_mas_split_final_node w mast mas height)"

text \<open>\<^verbatim>\<open>mast_split_fill_bnode\<close> for a root; below the root it ascends with
  \<^verbatim>\<open>mas_ascend\<close>, which is not embedded. At the root \<^verbatim>\<open>cp\<close> is false.\<close>

definition mast_split_fill_bnode ::
    "kernel \<Rightarrow> maple_subtree_state \<Rightarrow> ma_state \<Rightarrow> nat
       \<Rightarrow> halt + (kernel \<times> maple_subtree_state \<times> ma_state)" where
  "mast_split_fill_bnode w mast mas skip =
     (let bn = zero_big_node in
      bnd (mte_is_root w (node mas)) (\<lambda>root.
      if \<not> root then Inl Not_Embedded
      else
        let bn = bn\<lparr>min_b := min_idx mas\<rparr> in
        bnd (mab_set_b_end w bn (mast_l mast) (node (mast_l mast))) (\<lambda>bn.
        bnd (mas_set_offset (mast_r mast) (b_end bn)) (\<lambda>r.
        bnd (mab_set_b_end w bn r (node r)) (\<lambda>bn.
        let bn = bn\<lparr>b_end := (b_end bn + 255) mod 256\<rparr> in
        bnd (mte_node_type (node mas)) (\<lambda>type.
        let bn = bn\<lparr>type_b := type\<rparr> in
        Inr (w, mast\<lparr>mast_r := r, mast_bn := bn\<rparr>, mas)))))))"

text \<open>\<^verbatim>\<open>mas_set_split_parent\<close> returns the memory and the advanced \<^verbatim>\<open>*slot\<close>; a null
  \<^verbatim>\<open>right\<close> is the word 0.\<close>

definition mas_set_split_parent ::
    "kernel \<Rightarrow> ma_state \<Rightarrow> ulong \<Rightarrow> ulong \<Rightarrow> nat \<Rightarrow> nat \<Rightarrow> halt + (kernel \<times> nat)" where
  "mas_set_split_parent w mas left right slt splt =
     (if mas_is_none mas then Inr (w, slt)
      else
        bnd (if slt \<le> splt then mte_set_parent w (node mas) left slt
             else if right \<noteq> 0 then mte_set_parent w (node mas) right (slt - splt - 1)
             else Inr w) (\<lambda>w. Inr (w, (slt + 1) mod 256)))"

definition mast_split_data ::
    "kernel \<Rightarrow> maple_subtree_state \<Rightarrow> ma_state \<Rightarrow> nat
       \<Rightarrow> halt + (kernel \<times> maple_subtree_state)" where
  "mast_split_data w mast mas splt =
     bnd (mab_mas_cp (mast_bn mast) 0 splt w (mast_l mast)) (\<lambda>(w, l).
     bnd (mte_set_pivot w (node (mast_r mast)) 0 (max_idx (mast_r mast))) (\<lambda>w.
     bnd (mab_mas_cp (mast_bn mast) (splt + 1) (b_end (mast_bn mast)) w (mast_r mast)) (\<lambda>(w, r).
     bnd (mte_parent_slot w (node mas)) (\<lambda>ps.
     bnd (mas_set_offset l ps) (\<lambda>l.
     let l = l\<lparr>max_idx := pivot_b (mast_bn mast) splt\<rparr>;
         r = r\<lparr>min_idx := max_idx l + 1\<rparr>;
         mast = mast\<lparr>mast_l := l, mast_r := r\<rparr>
     in
     bnd (mte_is_leaf (node mas)) (\<lambda>leaf.
     if \<not> leaf then
       (let p_slot = mas_offset (mast_orig_l mast) in
        bnd (mas_set_split_parent w (mast_orig_l mast) (node l) (node r) p_slot splt)
          (\<lambda>(w, p_slot).
        bnd (mas_set_split_parent w (mast_orig_r mast) (node l) (node r) p_slot splt)
          (\<lambda>(w, p_slot). Inr (w, mast))))
     else Inr (w, mast)))))))"

text \<open>
  The loop \<^verbatim>\<open>while (height++ <= mas->full_cnt)\<close> of \<^verbatim>\<open>mas_split\<close>. Nothing in its body
  writes \<^verbatim>\<open>full_cnt\<close>, so the loop test is decided by \<open>height\<close> alone and the first
  argument, the number of tests still allowed, only makes the recursion structural;
  \<^verbatim>\<open>mas_split\<close> passes as many as the loop can make, \<^verbatim>\<open>full_cnt + 2\<close>.
\<close>

fun mas_split_loop ::
    "nat \<Rightarrow> kernel \<Rightarrow> maple_subtree_state \<Rightarrow> ma_state \<Rightarrow> int
       \<Rightarrow> halt + (kernel \<times> maple_subtree_state \<times> ma_state)" where
  "mas_split_loop 0 w mast mas height = Inl Out_Of_Fuel"
| "mas_split_loop (Suc rounds) w mast mas height =
     (if \<not> height \<le> full_cnt mas then Inr (w, mast, mas)
      else
        let height = height + 1 in
        bnd (mas_split_final_node w mast mas height) (\<lambda>(w, mast, mas, final).
        if final then Inr (w, mast, mas)
        else
          bnd (mas_dup_state (mast_l mast) mas) (\<lambda>l.
          bnd (mas_dup_state (mast_r mast) mas) (\<lambda>r.
          bnd (mas_new_ma_node mas (mast_bn mast)) (\<lambda>(mas, ln).
          bnd (mas_new_ma_node mas (mast_bn mast)) (\<lambda>(mas, rn).
          let mast = mast\<lparr>mast_l := l\<lparr>node := ln\<rparr>, mast_r := r\<lparr>node := rn\<rparr>\<rparr> in
          bnd (mas_push_left w mas height mast) (\<lambda>pushed.
          if pushed then Inr (w, mast, mas)
          else
            bnd (mas_push_right w mas height mast) (\<lambda>pushed.
            if pushed then Inr (w, mast, mas)
            else
              let (splt, mid_split) = mab_calc_split (mast_bn mast) in
              bnd (mast_split_data w mast mas splt) (\<lambda>(w, mast).
              let mast = mast\<lparr>mast_r := (mast_r mast)\<lparr>max_idx := max_idx mas\<rparr>\<rparr> in
              bnd (mast_split_fill_bnode w mast mas 1) (\<lambda>(w, mast, mas).
              bnd (mas_dup_state (mast_orig_l mast) (mast_l mast)) (\<lambda>pl.
              bnd (mas_dup_state (mast_orig_r mast) (mast_r mast)) (\<lambda>pr.
              mas_split_loop rounds w (mast\<lparr>mast_orig_l := pl, mast_orig_r := pr\<rparr>) mas
                height))))))))))))"

definition mas_split ::
    "nat \<Rightarrow> kernel \<Rightarrow> ma_state \<Rightarrow> maple_big_node \<Rightarrow> halt + (kernel \<times> ma_state \<times> int)" where
  "mas_split fuel w mas b_node =
     bnd (mas_node_cnt w mas (nat (1 + full_cnt mas * 2))) (\<lambda>(w, mas).
     if mas_is_err mas then Inr (w, mas, 0)
     else
       let c = MA_STATE (index mas) (last_idx mas);
           mast = \<lparr>mast_orig_l = c, mast_orig_r = c, mast_l = c, mast_r = c,
                   mast_free = [], mast_bn = b_node\<rparr>;
           mas = mas\<lparr>depth := ucast (mt_height (tree w))\<rparr>
       in
       bnd (mas_split_loop (Suc (nat (full_cnt mas + 1))) w mast mas 0) (\<lambda>(w, mast, mas).
       bnd (mat_add w (mast_free mast) (node mas)) (\<lambda>(w, free_list).
       let mas = mas\<lparr>node := node (mast_l mast)\<rparr> in
       bnd (mas_wmb_replace fuel w mas free_list) (\<lambda>w. Inr (w, mas, 1)))))"

subsection \<open>Committing a big node\<close>

function mas_reuse_node_clear :: "kernel \<Rightarrow> ma_state \<Rightarrow> nat \<Rightarrow> nat \<Rightarrow> nat \<Rightarrow> halt + kernel" where
  "mas_reuse_node_clear w mas cnt pc i =
     (if i < cnt then
        (case bnd (mte_set_rcu_slot w (node mas) i 0) (\<lambda>w.
              if i < pc then mte_set_pivot w (node mas) i 0 else Inr w) of
           Inl h \<Rightarrow> Inl h
         | Inr w' \<Rightarrow> mas_reuse_node_clear w' mas cnt pc (i + 1))
      else Inr w)"
  by pat_completeness auto
termination
  by (relation "measure (\<lambda>(w, mas, cnt, pc, i). cnt - i)") auto

definition mas_reuse_node ::
    "kernel \<Rightarrow> ma_state \<Rightarrow> maple_big_node \<Rightarrow> nat \<Rightarrow> halt + (kernel \<times> ma_state \<times> bool)" where
  "mas_reuse_node w mas bn end_slot =
     (if mas_in_rcu (tree w) then Inr (w, mas, False)
      else
        bnd (mab_mas_cp bn 0 (b_end bn) w mas) (\<lambda>(w, mas).
        bnd (if end_slot > b_end bn then
               bnd (mt_slot_count (node mas)) (\<lambda>cnt.
               bnd (mt_pivot_count (node mas)) (\<lambda>pc.
               mas_reuse_node_clear w mas cnt pc (b_end bn + 1)))
             else Inr w) (\<lambda>w. Inr (w, mas, True))))"

text \<open>\<^verbatim>\<open>mas_commit_b_node\<close>; the rebalance of a node that has become too small
  (\<^verbatim>\<open>mas_rebalance\<close>) is not embedded.\<close>

definition mas_commit_b_node ::
    "nat \<Rightarrow> kernel \<Rightarrow> ma_state \<Rightarrow> maple_big_node \<Rightarrow> nat \<Rightarrow> halt + (kernel \<times> ma_state \<times> int)" where
  "mas_commit_b_node fuel w mas b_node end_slot =
     bnd (mt_min_slot_cnt (node mas)) (\<lambda>min_cnt.
     bnd (mte_is_root w (node mas)) (\<lambda>root.
     if b_end b_node < min_cnt \<and> \<not> root \<and> mt_height (tree w) > 1 then Inl Not_Embedded
     else
       bnd (mt_slot_count (node mas)) (\<lambda>cnt.
       if b_end b_node \<ge> cnt then
         (if mas_is_err mas then Inr (w, mas, 0) else mas_split fuel w mas b_node)
       else
         bnd (mas_reuse_node w mas b_node end_slot) (\<lambda>(w, mas, reused).
         if reused then bnd (mas_update_gap w mas) (\<lambda>w. Inr (w, mas, 2))
         else
           bnd (mas_node_cnt w mas 1) (\<lambda>(w, mas).
           if mas_is_err mas then Inr (w, mas, 0)
           else
             bnd (mte_node_type (node mas)) (\<lambda>type.
             bnd (mas_next_alloc mas) (\<lambda>(mas1, mn).
             let new_node = mt_mk_node mn type in
             bnd (node_at w (mas_mn mas1)) (\<lambda>old.
             bnd (node_at w (mte_to_node new_node)) (\<lambda>nn.
             let w = set_node w (mte_to_node new_node) (nn\<lparr>parent := parent old\<rparr>);
                 mas = mas1\<lparr>node := new_node\<rparr>
             in
             bnd (mab_mas_cp b_node 0 (b_end b_node) w mas) (\<lambda>(w, mas).
             bnd (mas_replace w mas False) (\<lambda>w.
             bnd (mas_update_gap w mas) (\<lambda>w. Inr (w, mas, 2)))))))))))))"

text \<open>The \<^verbatim>\<open>do ... while (slot && slot-- >= end)\<close> loop of the append in
  \<^verbatim>\<open>_mas_store\<close>.\<close>

function mas_append_loop ::
    "kernel \<Rightarrow> ma_state \<Rightarrow> maple_big_node \<Rightarrow> nat \<Rightarrow> nat \<Rightarrow> nat \<Rightarrow> halt + kernel" where
  "mas_append_loop w mas b_node slot_cnt end_slot slt =
     (case bnd (mte_set_rcu_slot w (node mas) slt (slot_b b_node slt)) (\<lambda>w.
           if slt < slot_cnt - 1 then mte_set_pivot w (node mas) slt (pivot_b b_node slt)
           else Inr w) of
        Inl h \<Rightarrow> Inl h
      | Inr w' \<Rightarrow>
          if slt \<noteq> 0 \<and> slt \<ge> end_slot
          then mas_append_loop w' mas b_node slot_cnt end_slot (slt - 1)
          else Inr w')"
  by pat_completeness auto
termination
  by (relation "measure (\<lambda>(w, mas, b_node, slot_cnt, end_slot, slt). slt)") auto

subsection \<open>Storing\<close>

text \<open>
  \<^verbatim>\<open>_mas_store\<close> after its first block, from the call of \<^verbatim>\<open>mas_wr_walk\<close> on. Not
  embedded are the spanning store (\<^verbatim>\<open>mas_spanning_store\<close>) and the widening of a null
  store in a node (\<^verbatim>\<open>mas_extend_null\<close>). The locals \<^verbatim>\<open>r_min\<close> and \<^verbatim>\<open>r_max\<close> are
  uninitialised in C and read only after the walk has written them.
\<close>

definition u_mas_store_walk ::
    "nat \<Rightarrow> kernel \<Rightarrow> ma_state \<Rightarrow> ulong \<Rightarrow> bool \<Rightarrow> halt + (kernel \<times> ma_state \<times> ulong)" where
  "u_mas_store_walk fuel w mas entry overwrite =
     bnd (mas_wr_walk fuel w mas 0 0 entry) (\<lambda>(mas, r_min, r_max, ok).
     if \<not> ok \<and> span_enode mas = 0 then Inr (w, mas, 0)
     else if span_enode mas \<noteq> 0 then
       (if \<not> overwrite then Inr (w, mas_set_err mas (- EEXIST), 0)
        else Inl Not_Embedded)
     else
       let slt = mas_offset mas in
       bnd (mt_slot_count (node mas)) (\<lambda>slot_cnt.
       bnd (mas_get_rcu_slot w mas slt) (\<lambda>content.
       if \<not> overwrite \<and> (last_idx mas > r_max \<or> content \<noteq> 0)
       then Inr (w, mas_set_err mas (- EEXIST), content)
       else if entry = 0 then Inl Not_Embedded
       else
         bnd (mas_set_offset mas slt) (\<lambda>mas.
         bnd (mas_store_b_node w mas zero_big_node entry) (\<lambda>(b_node, be).
         bnd (mte_node_type (node mas)) (\<lambda>type.
         let b_node = b_node\<lparr>b_end := be, min_b := min_idx mas, type_b := type\<rparr> in
         bnd (mas_data_end w mas) (\<lambda>end_slot.
         if mas_can_append mas b_node slot_cnt end_slot then
           bnd (mas_append_loop w mas b_node slot_cnt end_slot (b_end b_node)) (\<lambda>w.
           bnd (mas_update_gap w mas) (\<lambda>w. Inr (w, mas, content)))
         else
           bnd (mt_min_slot_cnt (node mas)) (\<lambda>min_cnt.
           let mas = (if b_end b_node \<ge> slot_cnt \<and> end_slot < slot_cnt then mas_cnt_full mas
                      else if b_end b_node < min_cnt then mas_cnt_empty mas
                      else mas) in
           bnd (mas_commit_b_node fuel w mas b_node end_slot) (\<lambda>(w, mas, ret).
           if ret = 0 then Inr (w, mas, 0) else Inr (w, mas, content))))))))))"

definition u_mas_store ::
    "nat \<Rightarrow> kernel \<Rightarrow> ma_state \<Rightarrow> ulong \<Rightarrow> bool \<Rightarrow> halt + (kernel \<times> ma_state \<times> ulong)" where
  "u_mas_store fuel w mas entry overwrite =
     bnd (mas_start w mas) (\<lambda>(mas, e).
     if e \<noteq> 0 \<or> (mas_is_none mas \<or> node mas = MAS_ROOT) then
       bnd (ma_root_ptr w mas entry overwrite) (\<lambda>(w, mas, ret).
       if mas_is_err mas then Inr (w, mas, 0)
       else if ret \<noteq> 0 then Inr (w, mas, 0)
       else u_mas_store_walk fuel w mas entry overwrite)
     else u_mas_store_walk fuel w mas entry overwrite)"

text \<open>The \<^verbatim>\<open>retry:\<close> loop shared by \<^verbatim>\<open>mtree_store_range\<close> and \<^verbatim>\<open>mtree_insert_range\<close>,
  with the translation of the cursor's error into the return value that follows it.\<close>

fun mas_store_retry ::
    "nat \<Rightarrow> nat \<Rightarrow> kernel \<Rightarrow> ma_state \<Rightarrow> ulong \<Rightarrow> bool \<Rightarrow> halt + (kernel \<times> int)" where
  "mas_store_retry 0 fuel w mas entry overwrite = Inl Out_Of_Fuel"
| "mas_store_retry (Suc rounds) fuel w mas entry overwrite =
     bnd (u_mas_store fuel w mas entry overwrite) (\<lambda>(w, mas, content).
     bnd (mas_nomem w mas) (\<lambda>(w, mas, again).
     if again then mas_store_retry rounds fuel w mas entry overwrite
     else if mas_is_err mas then Inr (w, xa_err (node mas))
     else Inr (w, 0)))"

definition mtree_store_range ::
    "nat \<Rightarrow> nat \<Rightarrow> kernel \<Rightarrow> ulong \<Rightarrow> ulong \<Rightarrow> ulong \<Rightarrow> halt + (kernel \<times> int)" where
  "mtree_store_range rounds fuel w idx lst entry =
     (if xa_is_advanced entry then Inr (w, - EINVAL)
      else if idx > lst then Inr (w, - EINVAL)
      else mas_store_retry rounds fuel w (MA_STATE idx lst) entry True)"

definition mtree_store ::
    "nat \<Rightarrow> nat \<Rightarrow> kernel \<Rightarrow> ulong \<Rightarrow> ulong \<Rightarrow> halt + (kernel \<times> int)" where
  "mtree_store rounds fuel w idx entry = mtree_store_range rounds fuel w idx idx entry"

definition mtree_insert_range ::
    "nat \<Rightarrow> nat \<Rightarrow> kernel \<Rightarrow> ulong \<Rightarrow> ulong \<Rightarrow> ulong \<Rightarrow> halt + (kernel \<times> int)" where
  "mtree_insert_range rounds fuel w first lst entry =
     (if xa_is_advanced entry then Inr (w, - EINVAL)
      else if first > lst then Inr (w, - EINVAL)
      else mas_store_retry rounds fuel w (MA_STATE first lst) entry False)"

definition mtree_insert ::
    "nat \<Rightarrow> nat \<Rightarrow> kernel \<Rightarrow> ulong \<Rightarrow> ulong \<Rightarrow> halt + (kernel \<times> int)" where
  "mtree_insert rounds fuel w idx entry = mtree_insert_range rounds fuel w idx idx entry"

subsection \<open>Allocating a range\<close>

text \<open>
  \<^verbatim>\<open>mas_alloc\<close>. The branch for an empty tree or a tree of one root entry is embedded;
  the search of a tree of nodes (\<^verbatim>\<open>mas_awalk\<close>, \<^verbatim>\<open>mas_fill_gap\<close>) is not. The out
  parameter \<^verbatim>\<open>*index\<close> is the last component of the result: the caller's value comes in
  as \<open>startp\<close> and goes out as the function leaves it.
\<close>

definition mas_alloc ::
    "kernel \<Rightarrow> ma_state \<Rightarrow> ulong \<Rightarrow> ulong \<Rightarrow> ulong
       \<Rightarrow> halt + (kernel \<times> ma_state \<times> int \<times> ulong)" where
  "mas_alloc w mas entry sz startp =
     bnd (mas_start w mas) (\<lambda>(mas, e).
     if mas_is_none mas \<or> mas_is_ptr mas then
       bnd (mas_root_expand w mas entry) (\<lambda>(w, mas, slt).
       if mas_is_err mas then Inr (w, mas, xa_err (node mas), startp)
       else if index mas = 0 then
         bnd (mte_get_pivot w (node mas) 0) (\<lambda>p. Inr (w, mas, int_of_ulong p, startp))
       else
         bnd (mte_get_pivot w (node mas) 1) (\<lambda>p. Inr (w, mas, int_of_ulong p, startp)))
     else Inl Not_Embedded)"

fun mas_alloc_retry ::
    "nat \<Rightarrow> kernel \<Rightarrow> ma_state \<Rightarrow> ulong \<Rightarrow> ulong \<Rightarrow> ulong \<Rightarrow> ulong \<Rightarrow> ulong
       \<Rightarrow> halt + (kernel \<times> int \<times> ulong)" where
  "mas_alloc_retry 0 w mas startp entry sz mn mx = Inl Out_Of_Fuel"
| "mas_alloc_retry (Suc rounds) w mas startp entry sz mn mx =
     bnd (mas_set_offset mas 0) (\<lambda>mas.
     let mas = mas\<lparr>index := mn, last_idx := mx - sz\<rparr> in
     bnd (mas_alloc w mas entry sz startp) (\<lambda>(w, mas, ret, startp).
     bnd (mas_nomem w mas) (\<lambda>(w, mas, again).
     if again then mas_alloc_retry rounds w mas startp entry sz mn mx
     else Inr (w, ret, startp))))"

definition mtree_alloc_range ::
    "nat \<Rightarrow> kernel \<Rightarrow> ulong \<Rightarrow> ulong \<Rightarrow> ulong \<Rightarrow> ulong \<Rightarrow> ulong
       \<Rightarrow> halt + (kernel \<times> int \<times> ulong)" where
  "mtree_alloc_range rounds w startp entry sz mn mx =
     (if \<not> mt_is_alloc (tree w) then Inr (w, - EINVAL, startp)
      else if mt_is_reserved entry then Inr (w, - EINVAL, startp)
      else if mn > mx then Inr (w, - EINVAL, startp)
      else if mx < sz then Inr (w, - EINVAL, startp)
      else if sz = 0 then Inr (w, - EINVAL, startp)
      else mas_alloc_retry rounds w (MA_STATE mn (mx - sz)) startp entry sz mn mx)"

subsection \<open>The validation of a tree\<close>

text \<open>
  \<^verbatim>\<open>mas_validate_gaps\<close>, the check of the debug build that \<^verbatim>\<open>mt_validate\<close> runs on every
  node of a tree in allocation mode. It changes nothing; the result here is whether one
  of its \<^verbatim>\<open>MT_BUG_ON\<close> conditions held. \<open>mas_validate_gaps_loop\<close> is its loop over a
  node with pivots, with the running \<open>gap\<close>, \<open>max_gap\<close> and the flag so far.
\<close>

function mas_validate_gaps_dense ::
    "kernel \<Rightarrow> ma_state \<Rightarrow> nat \<Rightarrow> nat \<Rightarrow> ulong \<Rightarrow> ulong \<Rightarrow> halt + ulong" where
  "mas_validate_gaps_dense w mas cnt i g max_gap =
     (if i < cnt then
        (case mas_get_rcu_slot w mas i of
           Inl h \<Rightarrow> Inl h
         | Inr entry \<Rightarrow>
             if \<not> mt_is_empty entry
             then mas_validate_gaps_dense w mas cnt (i + 1) 0 (if g > max_gap then g else max_gap)
             else mas_validate_gaps_dense w mas cnt (i + 1) (g + 1) max_gap)
      else Inr max_gap)"
  by pat_completeness auto
termination
  by (relation "measure (\<lambda>(w, mas, cnt, i, g, max_gap). cnt - i)") auto

function mas_validate_gaps_loop ::
    "kernel \<Rightarrow> ma_state \<Rightarrow> nat \<Rightarrow> bool \<Rightarrow> nat \<Rightarrow> ulong \<Rightarrow> ulong \<Rightarrow> ulong \<Rightarrow> bool
       \<Rightarrow> halt + (ulong \<times> bool)" where
  "mas_validate_gaps_loop w mas cnt leaf i p_start g max_gap bug =
     (if i < cnt then
        (case
           bnd (mas_get_safe_pivot w mas i) (\<lambda>p_end0.
           let p_end = (if p_end0 = 0 \<and> i \<noteq> 0 then max_idx mas else p_end0) in
           bnd (mas_get_rcu_slot w mas i) (\<lambda>entry.
           if leaf then
             (if \<not> mt_is_empty entry then Inr (p_end, 0, max_gap, bug)
              else
                let g = g + (p_end - p_start + 1) in
                Inr (p_end, g, if g > max_gap then g else max_gap, bug))
           else
             bnd (mte_get_gap w (node mas) i) (\<lambda>g.
             let bug = (if mt_is_empty entry
                        then bug \<or> g \<noteq> p_end - p_start + 1
                        else bug \<or> g > p_end - p_start + 1) in
             Inr (p_end, g, if g > max_gap then g else max_gap, bug)))) of
           Inl h \<Rightarrow> Inl h
         | Inr (p_end, g', max_gap', bug') \<Rightarrow>
             if p_end \<ge> max_idx mas then Inr (max_gap', bug')
             else mas_validate_gaps_loop w mas cnt leaf (i + 1) (p_end + 1) g' max_gap' bug')
      else Inr (max_gap, bug))"
  by pat_completeness auto
termination
  by (relation "measure (\<lambda>(w, mas, cnt, leaf, i, p_start, g, max_gap, bug). cnt - i)") auto

definition mas_validate_gaps :: "kernel \<Rightarrow> ma_state \<Rightarrow> halt + bool" where
  "mas_validate_gaps w mas =
     (let mte = node mas in
      bnd (mte_node_type mte) (\<lambda>type.
      bnd (mt_slot_count mte) (\<lambda>cnt.
      bnd (if ma_is_dense type
           then bnd (mas_validate_gaps_dense w mas cnt 0 0 0) (\<lambda>max_gap. Inr (max_gap, False))
           else mas_validate_gaps_loop w mas cnt (ma_is_leaf type) 0 (min_idx mas) 0 0 False)
        (\<lambda>(max_gap, bug).
      bnd (mte_is_root w mte) (\<lambda>root.
      if root then Inr bug
      else
        bnd (mte_parent_slot w (node mas)) (\<lambda>p_slot.
        bnd (mte_parent w mte) (\<lambda>p_mn.
        bnd (mas_parent_enum w mas mte) (\<lambda>ptype.
        bnd (node_at w p_mn) (\<lambda>pn.
        bnd (ma_get_gap pn p_slot ptype) (\<lambda>p_gap.
        Inr (bug \<or> max_gap > max_idx mas \<or> p_gap \<noteq> max_gap)))))))))))"


subsection \<open>Concrete inputs\<close>

text \<open>
  An empty tree with the given flags word. The handle lives at address \<^verbatim>\<open>0x2000\<close>; the
  slab cache will hand out the 256-byte aligned addresses \<^verbatim>\<open>0x10000\<close> and
  \<^verbatim>\<open>0x10100\<close>. \<open>entry_A\<close> and \<open>entry_B\<close> are two ordinary pointers.
\<close>

definition empty_kernel :: "uint \<Rightarrow> kernel" where
  "empty_kernel flags =
     \<lparr>tree = mt_init_flags flags, tree_addr = 8192, nodes = [],
      maple_node_cache = [65536, 65792]\<rparr>"

definition entry_A :: ulong where "entry_A = 20480"
definition entry_B :: ulong where "entry_B = 24576"

text \<open>The tree after \<^verbatim>\<open>mtree_store_range(mt, 0, 0, XA_ZERO_ENTRY)\<close> on the empty tree.\<close>

definition zero_entry_kernel :: kernel where
  "zero_entry_kernel =
     (case mtree_store_range 1 1 (empty_kernel 0) 0 0 XA_ZERO_ENTRY of
        Inr (w, r) \<Rightarrow> w
      | Inl h \<Rightarrow> empty_kernel 0)"

text \<open>
  A tree of two levels, built by hand: a range-64 root at \<^verbatim>\<open>0x10000\<close> whose slot 0
  covers \<open>[0, 20]\<close> and points to the leaf at \<^verbatim>\<open>0x10100\<close>, and whose slot 1 covers the
  rest and points to the leaf at \<^verbatim>\<open>0x10200\<close>. The first leaf holds \<open>entry_A\<close> over
  \<open>[0, 20]\<close>, the second \<open>entry_A\<close> over the rest. Parent words are encoded as
  \<^verbatim>\<open>mte_set_parent\<close> does for a range-64 parent: the parent's address, the slot shifted
  by 3, and the type bits 6.
\<close>

definition two_level_kernel :: kernel where
  "two_level_kernel =
     \<lparr>tree = \<lparr>ma_flags = 8, ma_root = mte_mk_root (mt_mk_node 65536 maple_range_64)\<rparr>,
      tree_addr = 8192,
      nodes =
        [(65536, zero_node\<lparr>parent := 8193,
            pivot := (pivot zero_node)[0 := 20, 1 := ULONG_MAX],
            slot := (slot zero_node)[0 := mt_mk_node 65792 maple_leaf_64,
                                     1 := mt_mk_node 66048 maple_leaf_64]\<rparr>),
         (65792, zero_node\<lparr>parent := 65536 OR 6,
            pivot := (pivot zero_node)[0 := 20],
            slot := (slot zero_node)[0 := entry_A]\<rparr>),
         (66048, zero_node\<lparr>parent := 65536 OR 8 OR 6,
            pivot := (pivot zero_node)[0 := ULONG_MAX],
            slot := (slot zero_node)[0 := entry_A]\<rparr>)],
      maple_node_cache = []\<rparr>"

text \<open>A cursor at the first leaf of that tree, for a write of \<open>[5, 20]\<close>.\<close>

definition leaf_cursor :: ma_state where
  "leaf_cursor =
     (MA_STATE 5 20)\<lparr>node := mt_mk_node 65792 maple_leaf_64, min_idx := 0, max_idx := 20\<rparr>"

text \<open>
  A run of \<^verbatim>\<open>mtree_store_range\<close> over a list of \<open>(first, last, entry)\<close>, collecting the
  return values.
\<close>

fun store_all ::
    "kernel \<Rightarrow> (ulong \<times> ulong \<times> ulong) list \<Rightarrow> halt + (kernel \<times> int list)" where
  "store_all w [] = Inr (w, [])"
| "store_all w ((first, lst, entry) # rest) =
     bnd (mtree_store_range 1 3 w first lst entry) (\<lambda>(w, r).
     bnd (store_all w rest) (\<lambda>(w, rs). Inr (w, r # rs)))"

text \<open>
  An empty tree in allocation mode, with enough nodes in the slab cache, and nine
  stores into it: null over \<open>[5, 10]\<close>, then \<open>entry_A\<close> at 11, 13, 15, 17, 19, 21, 23
  and 25.
\<close>

definition gap_stores :: "(ulong \<times> ulong \<times> ulong) list" where
  "gap_stores =
     [(5, 10, 0), (11, 11, entry_A), (13, 13, entry_A), (15, 15, entry_A),
      (17, 17, entry_A), (19, 19, entry_A), (21, 21, entry_A), (23, 23, entry_A),
      (25, 25, entry_A)]"

definition alloc_kernel :: kernel where
  "alloc_kernel =
     \<lparr>tree = mt_init_flags 1, tree_addr = 8192, nodes = [],
      maple_node_cache = [65536, 65792, 66048, 66304]\<rparr>"

text \<open>
  The memory while the tree is a single leaf at \<^verbatim>\<open>0x10000\<close>, as the first eight stores
  leave it, given by the used prefix of the leaf's pivots and slots.
\<close>

definition root_leaf_kernel :: "ulong list \<Rightarrow> ulong list \<Rightarrow> kernel" where
  "root_leaf_kernel pivs slts =
     \<lparr>tree = \<lparr>ma_flags = 5, ma_root = 65614\<rparr>, tree_addr = 8192,
      nodes =
        [(65536,
          \<lparr>parent = 8193,
           pivot = pivs @ replicate (MAPLE_NODE_SLOTS - length pivs) 0,
           slot = slts @ replicate (MAPLE_NODE_SLOTS - length slts) 0,
           gap = replicate MAPLE_NODE_SLOTS 0\<rparr>)],
      maple_node_cache = [65792, 66048, 66304]\<rparr>"

text \<open>
  The memory after those nine stores (that it is, is part of the property that uses
  it). The last store split the root leaf at \<^verbatim>\<open>0x10000\<close>, which is left marked dead,
  its first pivot overwritten by the link of the list of dead nodes, for the RCU callback; the new root is the allocation-range node at \<^verbatim>\<open>0x10100\<close>, its
  children the leaves at \<^verbatim>\<open>0x10300\<close>, over \<open>[0, 17]\<close>, and \<^verbatim>\<open>0x10200\<close>, over the rest.
\<close>

definition gap_kernel :: kernel where
  "gap_kernel =
     \<lparr>tree = \<lparr>ma_flags = 9, ma_root = 65902\<rparr>, tree_addr = 8192,
      nodes =
        [(65536,
          \<lparr>parent = 65536,
           pivot = [0, 10, 11, 12, 13, 14, 15, 16, 17, 18, 19, 20, 21, 22, 23]
                   @ replicate 16 0,
           slot = [0, 0, 20480, 0, 20480, 0, 20480, 0, 20480, 0, 20480, 0, 20480, 0, 20480]
                  @ replicate 16 0,
           gap = replicate 31 0\<rparr>),
         (65792,
          \<lparr>parent = 8193,
           pivot = [17, 18446744073709551615] @ replicate 29 0,
           slot = [66380, 66124] @ replicate 29 0,
           gap = [6, 18446744073709551590] @ replicate 29 0\<rparr>),
         (66048,
          \<lparr>parent = 65806,
           pivot = [18, 19, 20, 21, 22, 23, 24, 25, 18446744073709551615]
                   @ replicate 22 0,
           slot = [0, 20480, 0, 20480, 0, 20480, 0, 20480] @ replicate 23 0,
           gap = replicate 31 0\<rparr>),
         (66304,
          \<lparr>parent = 65798,
           pivot = [4, 10, 11, 12, 13, 14, 15, 16, 17] @ replicate 22 0,
           slot = [0, 0, 20480, 0, 20480, 0, 20480, 0, 20480] @ replicate 22 0,
           gap = replicate 31 0\<rparr>)],
      maple_node_cache = []\<rparr>"

text \<open>The cursor at the root of \<open>gap_kernel\<close>, as \<^verbatim>\<open>mas_start\<close> leaves it, and the cursor
  at the root's first child, as \<^verbatim>\<open>mas_descend\<close> leaves it.\<close>

definition gap_root_cursor :: ma_state where
  "gap_root_cursor =
     (case mas_start gap_kernel (MA_STATE 0 0) of
        Inr (mas, e) \<Rightarrow> mas
      | Inl h \<Rightarrow> MA_STATE 0 0)"

definition gap_child_cursor :: ma_state where
  "gap_child_cursor =
     (case mas_descend gap_kernel gap_root_cursor of
        Inr mas \<Rightarrow> mas
      | Inl h \<Rightarrow> MA_STATE 0 0)"

text \<open>
  Following the spec's words (invariant 4), the true maximum empty sub-range among
  \<open>n\<close> consecutive indices from \<open>lo\<close>, read through the public lookup: \<open>load_all\<close> looks
  each index up in turn, \<open>longest_null_run\<close> is the length of the longest run of null
  entries in the list of the answers.
\<close>

fun longest_null_run :: "ulong list \<Rightarrow> nat \<Rightarrow> nat \<Rightarrow> nat" where
  "longest_null_run [] cur best = (if cur > best then cur else best)"
| "longest_null_run (e # es) cur best =
     (if e = 0 then longest_null_run es (Suc cur) best
      else longest_null_run es 0 (if cur > best then cur else best))"

fun load_all :: "nat \<Rightarrow> nat \<Rightarrow> kernel \<Rightarrow> ulong list \<Rightarrow> halt + ulong list" where
  "load_all rounds fuel w [] = Inr []"
| "load_all rounds fuel w (i # idxs) =
     bnd (mtree_load rounds fuel w i) (\<lambda>e.
     bnd (load_all rounds fuel w idxs) (\<lambda>es. Inr (e # es)))"

definition spec_max_gap :: "nat \<Rightarrow> nat \<Rightarrow> kernel \<Rightarrow> ulong \<Rightarrow> nat \<Rightarrow> halt + nat" where
  "spec_max_gap rounds fuel w lo n =
     bnd (load_all rounds fuel w (map (\<lambda>k. lo + of_nat k) [0..<n])) (\<lambda>es.
     Inr (longest_null_run es 0 0))"







text \<open>A cursor at the root of the two-level tree, for a write of \<open>[5, 20]\<close>.\<close>

definition root_cursor :: ma_state where
  "root_cursor = (MA_STATE 5 20)\<lparr>node := mt_mk_node 65536 maple_range_64\<rparr>"

text \<open>
  A second tree of two levels, built by hand like the first: the second leaf holds the
  zero sentinel over \<open>[21, 30]\<close> and \<open>entry_A\<close> over the rest.
\<close>

definition zero_leaf_kernel :: kernel where
  "zero_leaf_kernel =
     \<lparr>tree = \<lparr>ma_flags = 8, ma_root = mte_mk_root (mt_mk_node 65536 maple_range_64)\<rparr>,
      tree_addr = 8192,
      nodes =
        [(65536, zero_node\<lparr>parent := 8193,
            pivot := (pivot zero_node)[0 := 20, 1 := ULONG_MAX],
            slot := (slot zero_node)[0 := mt_mk_node 65792 maple_leaf_64,
                                     1 := mt_mk_node 66048 maple_leaf_64]\<rparr>),
         (65792, zero_node\<lparr>parent := 65536 OR 6,
            pivot := (pivot zero_node)[0 := 20],
            slot := (slot zero_node)[0 := entry_A]\<rparr>),
         (66048, zero_node\<lparr>parent := 65536 OR 8 OR 6,
            pivot := (pivot zero_node)[0 := 30, 1 := ULONG_MAX],
            slot := (slot zero_node)[0 := XA_ZERO_ENTRY, 1 := entry_A]\<rparr>)],
      maple_node_cache = []\<rparr>"

subsection \<open>What a tree stores, following the specification\<close>

text \<open>
  Following the spec's words (node model and range walker): \<^verbatim>\<open>pivot[i]\<close> is the inclusive
  upper bound of \<^verbatim>\<open>slot[i]\<close>, \<^verbatim>\<open>slot[i]\<close> covers \<^verbatim>\<open>[prev_pivot + 1, pivot[i]]\<close>, the first
  slot starts at the node's min, and the last slot in use runs up to the node's implied
  max, its pivot not stored: in memory that is a slot past the pivot count, or a zero
  pivot after slot 0. \<open>spec_pivot\<close> is that upper bound of a slot (none where the
  variant has no such pivot to read) and \<open>spec_slot_min\<close> the lower bound.
  \<open>spec_slot_of\<close> is the smallest \<open>i\<close> with \<open>idx \<le> pivot[i]\<close>. \<open>spec_range\<close> reads
  a node of the memory: the slot whose range contains \<open>idx\<close>, that range, and the
  content of the slot; it gives nothing for an address that holds no node and for a dense
  node, whose pivots are implied. \<open>spec_stored\<close> follows the child pointers from a node
  down to a leaf, through at most the given number of levels, and gives the leaf and the
  entry stored in the range containing \<open>idx\<close>; it gives nothing where a child pointer
  is null.
\<close>

definition spec_pivot :: "maple_node \<Rightarrow> maple_type \<Rightarrow> ulong \<Rightarrow> nat \<Rightarrow> ulong option" where
  "spec_pivot n t mx i =
     (if i \<ge> mt_pivots t then Some mx
      else case ma_get_pivot n i t of
             Inl h \<Rightarrow> None
           | Inr p \<Rightarrow> Some (if p = 0 \<and> i \<noteq> 0 then mx else p))"

definition spec_slot_of :: "maple_node \<Rightarrow> maple_type \<Rightarrow> ulong \<Rightarrow> ulong \<Rightarrow> nat option" where
  "spec_slot_of n t mx idx =
     find (\<lambda>i. case spec_pivot n t mx i of None \<Rightarrow> True | Some p \<Rightarrow> idx \<le> p)
       [0..<mt_slots t]"

definition spec_slot_min :: "maple_node \<Rightarrow> maple_type \<Rightarrow> ulong \<Rightarrow> nat \<Rightarrow> ulong" where
  "spec_slot_min n t mn i =
     (if i = 0 then mn
      else case ma_get_pivot n (i - 1) t of Inl h \<Rightarrow> 0 | Inr p \<Rightarrow> p + 1)"

definition spec_range ::
    "kernel \<Rightarrow> ulong \<Rightarrow> ulong \<Rightarrow> ulong \<Rightarrow> ulong \<Rightarrow> (nat \<times> ulong \<times> ulong \<times> ulong) option" where
  "spec_range w enode mn mx idx =
     (case mte_node_type enode of
        Inl h \<Rightarrow> None
      | Inr t \<Rightarrow>
          if t = maple_dense then None
          else
            (case node_at w (mte_to_node enode) of
               Inl h \<Rightarrow> None
             | Inr n \<Rightarrow>
                 (case spec_slot_of n t mx idx of
                    None \<Rightarrow> None
                  | Some i \<Rightarrow>
                      (case spec_pivot n t mx i of
                         None \<Rightarrow> None
                       | Some p \<Rightarrow> Some (i, spec_slot_min n t mn i, p, slot n ! i)))))"

fun spec_stored ::
    "nat \<Rightarrow> kernel \<Rightarrow> ulong \<Rightarrow> ulong \<Rightarrow> ulong \<Rightarrow> ulong \<Rightarrow> (ulong \<times> ulong) option" where
  "spec_stored 0 w enode mn mx idx = None"
| "spec_stored (Suc d) w enode mn mx idx =
     (case spec_range w enode mn mx idx of
        None \<Rightarrow> None
      | Some (i, lo, hi, content) \<Rightarrow>
          if mte_is_leaf enode = Inr True then Some (enode, content)
          else if content = 0 then None
          else spec_stored d w content lo hi idx)"

section \<open>Properties\<close>

lemma bnd_simps [simp]: "bnd (Inr x) f = f x" "bnd (Inl h) f = Inl h"
  by (simp_all add: bnd_def)

lemmas slot_consts =
  MAPLE_NODE_SLOTS_def MAPLE_RANGE64_SLOTS_def MAPLE_ARANGE64_SLOTS_def
  MAPLE_RANGE32_SLOTS_def MAPLE_RANGE16_SLOTS_def MAPLE_SPARSE64_SLOTS_def
  MAPLE_SPARSE32_SLOTS_def MAPLE_SPARSE21_SLOTS_def MAPLE_SPARSE16_SLOTS_def
  MAPLE_SPARSE9_SLOTS_def MAPLE_SPARSE6_SLOTS_def

lemmas flag_consts =
  MAPLE_ALLOC_RANGE_def MAPLE_USE_RCU_def MAPLE_HEIGHT_OFFSET_def MAPLE_HEIGHT_MASK_def

lemmas model_defs =
  ULONG_MAX_def UINT_MAX_def slot_consts ma_is_dense_def ma_is_leaf_def flag_consts
  mt_height_def mt_is_alloc_def mt_init_flags_def MAS_START_def MAS_ROOT_def MAS_NONE_def
  MA_STATE_def mas_is_none_def mas_is_ptr_def mas_is_start_def
  xa_mk_internal_def xa_is_internal_def XA_RETRY_ENTRY_def XA_ZERO_ENTRY_def xa_is_zero_def
  xa_is_advanced_def xa_is_node_def ENOMEM_def EBUSY_def EEXIST_def EINVAL_def MAX_ERRNO_def
  xa_is_err_def xa_err_def MA_ERROR_def int_of_ulong_def zero_node_def node_at_def
  mt_alloc_one_def kmem_cache_free_def MA_ROOT_PARENT_def maple_type_of_def mte_node_type_def
  mte_to_node_def mt_mk_node_def mte_mk_root_def mte_safe_root_def mt_is_reserved_def
  mt_is_empty_def mas_set_err_def mas_is_err_def mas_mn_def mte_is_root_def mte_parent_def
  mte_dead_node_def mas_get_alloc_def mas_get_alloc_cnt_def mas_set_alloc_req_def
  mas_get_alloc_req_def mas_offset_def mas_set_offset_def ma_get_pivot_def u_mte_get_pivot_def
  mte_get_pivot_def u_mas_get_safe_pivot_def mas_get_safe_pivot_def ma_set_pivot_def
  mte_set_pivot_def ma_get_rcu_slot_def mte_get_rcu_slot_def mas_get_rcu_slot_def
  ma_set_rcu_slot_def mte_set_rcu_slot_def mas_start_def mas_node_walk_def
  u_mas_range_walk_def mas_load_def mtree_load_def mas_node_node_def mas_node_cnt_def
  mas_next_alloc_def mas_nomem_def mas_set_height_def mas_root_expand_def ma_root_ptr_def
  mte_is_leaf_def mt_slot_count_def u_mas_data_end_def mas_data_end_def mas_is_span_wr_def
  mas_cnt_full_def mas_cnt_empty_def mas_wr_walk_def u_mas_store_walk_def u_mas_store_def
  mtree_store_range_def mtree_store_def mtree_insert_range_def mtree_insert_def mas_alloc_def
  mtree_alloc_range_def empty_kernel_def entry_A_def entry_B_def

subsection \<open>Scenarios of the specification that the code meets\<close>

text \<open>
  S1: on the empty tree, \<^verbatim>\<open>store_range(10, 20, A)\<close> succeeds; then \<^verbatim>\<open>load(15)\<close> is
  \<open>A\<close> and \<^verbatim>\<open>load(9)\<close> and \<^verbatim>\<open>load(21)\<close> are null.
\<close>

lemma scenario_S1:
  "(case mtree_store_range 1 1 (empty_kernel 0) 10 20 entry_A of
      Inl h \<Rightarrow> False
    | Inr (w, r) \<Rightarrow>
        r = 0 \<and> mtree_load 1 1 w 15 = Inr entry_A
        \<and> mtree_load 1 1 w 9 = Inr 0 \<and> mtree_load 1 1 w 21 = Inr 0)"
  by code_simp

text \<open>
  S6: on the empty tree, \<^verbatim>\<open>insert_range(10, 20, A)\<close> succeeds; then
  \<^verbatim>\<open>insert_range(15, 25, B)\<close> returns \<^verbatim>\<open>-EEXIST\<close> and leaves the memory, and so the
  tree, exactly as the first call left it.
\<close>

lemma scenario_S6:
  "(case mtree_insert_range 1 1 (empty_kernel 0) 10 20 entry_A of
      Inl h \<Rightarrow> False
    | Inr (w, r) \<Rightarrow>
        r = 0 \<and> mtree_insert_range 1 1 w 15 25 entry_B = Inr (w, - EEXIST))"
  by code_simp

subsection \<open>The walks find the range that contains the index\<close>

text \<open>
  The loop of \<^verbatim>\<open>mas_node_walk\<close>, started at slot 0 of a node whose range contains the
  index, stops at the slot \<open>spec_slot_of\<close> names and returns the bounds of that slot's
  range; \<^verbatim>\<open>__mas_walk\<close> ends at the leaf and slot \<open>spec_stored\<close> names, within the same
  number of levels.
\<close>

lemma mt_slots_le: "mt_slots t \<le> MAPLE_NODE_SLOTS"
  by (cases t) (simp_all add: slot_consts)

lemma mas_node_walk_loop_spec:
  assumes n: "node_at w (mte_to_node (node mas)) = Inr n"
      and le: "index mas \<le> max_idx mas"
      and fnd: "find (\<lambda>i. case spec_pivot n t (max_idx mas) i of
                            None \<Rightarrow> True | Some p \<Rightarrow> index mas \<le> p)
                  [i0..<mt_slots t] = Some i"
      and piv: "spec_pivot n t (max_idx mas) i = Some p"
  shows "mas_node_walk_loop w mas t i0 mn pv
           = Inr (i, if i = i0 then mn else spec_slot_min n t mn i, p, True)"
  using fnd
proof (induction "mt_slots t - i0" arbitrary: i0 mn pv)
  case 0
  then show ?case by simp
next
  case (Suc k)
  then have lt: "i0 < mt_slots t" by simp
  let ?P = "\<lambda>i. case spec_pivot n t (max_idx mas) i of
                   None \<Rightarrow> True | Some p \<Rightarrow> index mas \<le> p"
  have upt: "[i0..<mt_slots t] = i0 # [Suc i0..<mt_slots t]"
    using lt by (simp add: upt_conv_Cons)
  show ?case
  proof (cases "?P i0")
    case True
    with Suc.prems upt have i: "i = i0" by simp
    show ?thesis
    proof (cases "i0 \<ge> mt_pivots t")
      case True
      then have "p = max_idx mas" using piv i by (simp add: spec_pivot_def)
      then show ?thesis
        using True lt le i
        by (subst mas_node_walk_loop.simps) (auto simp: u_mas_get_safe_pivot_def)
    next
      case False
      then obtain q where q: "ma_get_pivot n i0 t = Inr q"
        and p: "p = (if q = 0 \<and> i0 \<noteq> 0 then max_idx mas else q)"
        using piv i by (auto simp: spec_pivot_def split: sum.splits)
      have "index mas \<le> p"
        using \<open>?P i0\<close> piv i by simp
      then show ?thesis
        using False lt le i q p n
        by (subst mas_node_walk_loop.simps)
           (auto simp: u_mas_get_safe_pivot_def u_mte_get_pivot_def)
    qed
  next
    case False
    then obtain q' where q': "spec_pivot n t (max_idx mas) i0 = Some q'" "\<not> index mas \<le> q'"
      by (auto split: option.splits)
    have np: "\<not> i0 \<ge> mt_pivots t"
      using q' le by (auto simp: spec_pivot_def)
    then obtain q where q: "ma_get_pivot n i0 t = Inr q"
      and qq: "q' = (if q = 0 \<and> i0 \<noteq> 0 then max_idx mas else q)"
      using q' by (auto simp: spec_pivot_def split: sum.splits)
    have nz: "\<not> (q = 0 \<and> i0 \<noteq> 0)" "q' = q"
      using qq q' le by (auto split: if_splits)
    from False Suc.prems upt
    have rest: "find ?P [Suc i0..<mt_slots t] = Some i" by simp
    then have "i \<in> set [Suc i0..<mt_slots t]"
      by (auto simp: find_Some_iff)
    then have gt: "i0 < i" by simp
    have k: "k = mt_slots t - Suc i0" using Suc.hyps(2) by simp
    from Suc.hyps(1) [OF k rest]
    have IH: "mas_node_walk_loop w mas t (Suc i0) (q + 1) q
                = Inr (i, if i = Suc i0 then q + 1 else spec_slot_min n t (q + 1) i, p, True)"
      by blast
    have lo: "(if i = Suc i0 then q + 1 else spec_slot_min n t (q + 1) i)
                = spec_slot_min n t mn i"
      using gt q by (auto simp: spec_slot_min_def)
    show ?thesis
      using np lt q nz q' n IH lo gt
      by (subst mas_node_walk_loop.simps)
         (auto simp: u_mas_get_safe_pivot_def u_mte_get_pivot_def)
  qed
qed

lemma spec_slot_of_less:
  assumes "spec_slot_of n t mx idx = Some i"
  shows "i < mt_slots t"
proof -
  from assms have "i \<in> set [0..<mt_slots t]"
    unfolding spec_slot_of_def by (auto simp: find_Some_iff)
  then show ?thesis by simp
qed

lemma spec_rangeD:
  assumes "spec_range w enode mn mx idx = Some (i, lo, hi, c)"
  shows "\<exists>t n. mte_node_type enode = Inr t \<and> t \<noteq> maple_dense
           \<and> node_at w (mte_to_node enode) = Inr n
           \<and> spec_slot_of n t mx idx = Some i \<and> spec_pivot n t mx i = Some hi
           \<and> lo = spec_slot_min n t mn i \<and> c = slot n ! i"
  using assms unfolding spec_range_def
  by (auto split: sum.splits if_splits option.splits)

lemma mas_node_walk_spec:
  assumes rng: "spec_range w (node mas) (min_idx mas) (max_idx mas) (index mas)
                  = Some (i, lo, hi, c)"
      and t: "mte_node_type (node mas) = Inr t"
      and le: "index mas \<le> max_idx mas"
      and off: "mas_offset mas = 0"
  shows "mas_node_walk w mas t a b = Inr (mas\<lparr>alloc_req := i\<rparr>, lo, hi, True)"
    and "mas_get_rcu_slot w (mas\<lparr>alloc_req := i\<rparr>) i = Inr c"
    and "i < mt_slots t" and "index mas \<le> hi" and "t \<noteq> maple_dense"
proof -
  from rng t obtain n where nd: "t \<noteq> maple_dense"
    and n: "node_at w (mte_to_node (node mas)) = Inr n"
    and slt: "spec_slot_of n t (max_idx mas) (index mas) = Some i"
    and piv: "spec_pivot n t (max_idx mas) i = Some hi"
    and lo: "lo = spec_slot_min n t (min_idx mas) i"
    and c: "c = slot n ! i"
    using spec_rangeD [OF rng] by auto
  show "t \<noteq> maple_dense" by (rule nd)
  show lt: "i < mt_slots t" by (rule spec_slot_of_less [OF slt])
  from slt have "case spec_pivot n t (max_idx mas) i of None \<Rightarrow> True | Some p \<Rightarrow> index mas \<le> p"
    unfolding spec_slot_of_def by (auto simp: find_Some_iff)
  with piv show "index mas \<le> hi" by simp
  have loop: "mas_node_walk_loop w mas t 0 (min_idx mas) 0 = Inr (i, lo, hi, True)"
    using mas_node_walk_loop_spec [OF n le slt [unfolded spec_slot_of_def] piv,
            of "min_idx mas" 0] lo
    by (auto simp: spec_slot_min_def)
  have i: "i < 128"
    using lt mt_slots_le [of t] by (simp add: MAPLE_NODE_SLOTS_def)
  have "mas_node_walk w mas t a b =
      bnd (bnd (mas_node_walk_loop w mas t (mas_offset mas) (min_idx mas) 0)
                (\<lambda>(i, mn, pv, ret). Inr (mas, i, mn, pv, ret)))
       (\<lambda>(mas, i, mn, pv, ret).
     bnd (mas_set_offset mas i) (\<lambda>mas.
     if ret then Inr (mas, mn, pv, True)
     else Inr (mas, a, b, False)))"
    using nd by (cases t) (simp_all add: mas_node_walk_def)
  then show "mas_node_walk w mas t a b = Inr (mas\<lparr>alloc_req := i\<rparr>, lo, hi, True)"
    using loop i off by (simp add: mas_set_offset_def mas_set_alloc_req_def)
  show "mas_get_rcu_slot w (mas\<lparr>alloc_req := i\<rparr>) i = Inr c"
    using t n lt c
    by (simp add: mas_get_rcu_slot_def mte_get_rcu_slot_def ma_get_rcu_slot_def)
qed

lemma uu_mas_walk_spec:
  assumes "spec_stored d w (node mas) (min_idx mas) (max_idx mas) (index mas) = Some (leaf, e)"
      and "index mas \<le> max_idx mas"
      and "mas_offset mas = 0"
  shows "\<exists>mas' lo hi. uu_mas_walk d w mas a b = Inr (mas', lo, hi, True)
           \<and> node mas' = leaf
           \<and> mas_get_rcu_slot w mas' (mas_offset mas') = Inr e
           \<and> mas_offset mas' < MAPLE_NODE_SLOTS
           \<and> \<not> mas_is_ptr mas'"
  using assms
proof (induction d arbitrary: mas a b)
  case 0
  then show ?case by simp
next
  case (Suc d)
  from Suc.prems(1) obtain i lo hi c
    where rng: "spec_range w (node mas) (min_idx mas) (max_idx mas) (index mas)
                  = Some (i, lo, hi, c)"
    by (auto split: option.splits)
  then obtain t where t: "mte_node_type (node mas) = Inr t"
    using spec_rangeD by blast
  let ?m = "mas\<lparr>depth := depth mas + 1\<rparr>"
  have rng': "spec_range w (node ?m) (min_idx ?m) (max_idx ?m) (index ?m) = Some (i, lo, hi, c)"
    using rng by simp
  have t': "mte_node_type (node ?m) = Inr t"
    using t by simp
  have le': "index ?m \<le> max_idx ?m"
    using Suc.prems(2) by simp
  have off': "mas_offset ?m = 0"
    using Suc.prems(3) by (simp add: mas_offset_def mas_get_alloc_req_def)
  note W = mas_node_walk_spec [OF rng' t' le' off']
  have walk: "mas_node_walk w ?m t a b = Inr (?m\<lparr>alloc_req := i\<rparr>, lo, hi, True)"
    by (rule W(1))
  have rd: "mas_get_rcu_slot w (?m\<lparr>alloc_req := i\<rparr>) i = Inr c"
    by (rule W(2))
  have lt: "i < mt_slots t" by (rule W(3))
  have ip: "index mas \<le> hi" using W(4) by simp
  have nd: "t \<noteq> maple_dense" by (rule W(5))
  have notptr: "node mas \<noteq> MAS_ROOT"
    using t nd by (auto simp: MAS_ROOT_def mte_node_type_def maple_type_of_def)
  have leaf_iff: "mte_is_leaf (node mas) = Inr (ma_is_leaf t)"
    using t by (simp add: mte_is_leaf_def)
  show ?case
  proof (cases "ma_is_leaf t")
    case True
    with Suc.prems(1) rng leaf_iff have "leaf = node mas" "e = c"
      by simp_all
    then show ?thesis
      using t walk True rd lt mt_slots_le [of t] notptr
      by (simp add: Let_def mas_offset_def mas_get_alloc_req_def mas_is_ptr_def)
  next
    case False
    with Suc.prems(1) rng leaf_iff
    have nz: "c \<noteq> 0"
      and rec: "spec_stored d w c lo hi (index mas) = Some (leaf, e)"
      by (auto split: if_splits)
    let ?c = "?m\<lparr>alloc_req := i, max_idx := hi, min_idx := lo, node := c, alloc_req := 0\<rparr>"
    from Suc.IH [of ?c lo hi] rec ip
    obtain mas' lo' hi' where IH: "uu_mas_walk d w ?c lo hi = Inr (mas', lo', hi', True)"
        "node mas' = leaf" "mas_get_rcu_slot w mas' (mas_offset mas') = Inr e"
        "mas_offset mas' < MAPLE_NODE_SLOTS" "\<not> mas_is_ptr mas'"
      by (auto simp: mas_offset_def mas_get_alloc_req_def)
    show ?thesis
      using t walk False rd nz IH
      by (simp add: Let_def mas_offset_def mas_get_alloc_req_def mt_is_empty_def
            mas_set_offset_def mas_set_alloc_req_def)
  qed
qed


subsection \<open>The claims\<close>

subsubsection \<open>Stores at the root\<close>

text \<open>
  C1 (evaluation at the failing input). On the empty tree,
  \<^verbatim>\<open>mtree_store_range(mt, 1, 1, A)\<close> returns 0, and afterwards \<^verbatim>\<open>mtree_load(mt, 0)\<close>
  returns \<open>A\<close>, although no store has covered index 0: \<^verbatim>\<open>mas_root_expand\<close> writes the
  pivot that ends the null range below the entry only when \<^verbatim>\<open>mas->index > 1\<close>, so the
  entry's slot starts at 0.
\<close>

theorem store_at_one_read_at_zero:
  "(case mtree_store_range 1 1 (empty_kernel 0) 1 1 entry_A of
      Inl h \<Rightarrow> False
    | Inr (w, r) \<Rightarrow>
        r = 0 \<and> mtree_load 1 1 w 0 = Inr entry_A \<and> entry_A \<noteq> 0
        \<and> mtree_load 1 1 w 1 = Inr entry_A \<and> mtree_load 1 1 w 2 = Inr 0)"
  by code_simp

text \<open>
  C2 (evaluation at the failing input). On the empty tree in allocation mode,
  \<^verbatim>\<open>mtree_alloc_range\<close> for size 16 in the window from 0 to the largest index (and
  equally to \<^verbatim>\<open>UINT_MAX\<close>) returns -17, not 0: \<^verbatim>\<open>mas_alloc\<close> returns the pivot it has
  just written, \<^verbatim>\<open>max - size\<close>, through its \<^verbatim>\<open>int\<close> result. The caller's \<^verbatim>\<open>*startp\<close>
  (777 here) is not written, and the entry occupies \<open>[0, max - size]\<close> rather than
  \<open>[0, 15]\<close>.
\<close>

theorem alloc_range_on_empty_tree:
  "mt_is_alloc (tree (empty_kernel 1))
   \<and> (case mtree_alloc_range 1 (empty_kernel 1) 777 entry_A 16 0 ULONG_MAX of
         Inl h \<Rightarrow> False
       | Inr (w, r, startp) \<Rightarrow>
           r = - 17 \<and> startp = 777
           \<and> mtree_load 1 1 w 16 = Inr entry_A
           \<and> mtree_load 1 1 w (ULONG_MAX - 16) = Inr entry_A
           \<and> mtree_load 1 1 w (ULONG_MAX - 15) = Inr 0)
   \<and> (case mtree_alloc_range 1 (empty_kernel 1) 777 entry_A 16 0 UINT_MAX of
         Inl h \<Rightarrow> False
       | Inr (w, r, startp) \<Rightarrow>
           r = - 17 \<and> startp = 777
           \<and> mtree_load 1 1 w 16 = Inr entry_A
           \<and> mtree_load 1 1 w (UINT_MAX - 16) = Inr entry_A
           \<and> mtree_load 1 1 w (UINT_MAX - 15) = Inr 0)"
  by code_simp

subsubsection \<open>The write walk\<close>

text \<open>
  Three facts about the write walk. \<^verbatim>\<open>mas_is_span_wr\<close>, called with no spanning node
  recorded, marks the node exactly under the condition below; \<^verbatim>\<open>mas_node_walk\<close> changes
  nothing of the cursor but its offset (and, in a dense node, its index); and one round
  of the loop of \<^verbatim>\<open>mas_wr_walk\<close>, given what \<^verbatim>\<open>mas_node_walk\<close> returns, marks the node
  and returns under that condition \<open>S\<close>, and goes on otherwise.
\<close>

lemma mas_is_span_wr_cases:
  assumes "span_enode mas = 0" and "mte_node_type (node mas) = Inr type"
  shows "mas_is_span_wr mas piv entry =
     (if last_idx mas \<ge> piv
         \<and> \<not> (last_idx mas = ULONG_MAX \<and> min_idx mas \<le> index mas
                \<and> last_idx mas = max_idx mas)
         \<and> (if ma_is_leaf type
            then last_idx mas > max_idx mas \<or> (last_idx mas = max_idx mas \<and> entry = 0)
            else last_idx mas > piv \<or> entry = 0)
      then Inr (mas\<lparr>span_enode := node mas\<rparr>, True)
      else Inr (mas, False))"
  using assms by (auto simp: mas_is_span_wr_def mte_is_leaf_def)

lemma mas_node_walk_fields:
  assumes "mas_node_walk w mas t a b = Inr (mas', lo, hi, ok)"
  shows "span_enode mas' = span_enode mas \<and> node mas' = node mas
         \<and> last_idx mas' = last_idx mas \<and> max_idx mas' = max_idx mas
         \<and> min_idx mas' = min_idx mas \<and> full_cnt mas' = full_cnt mas
         \<and> depth mas' = depth mas"
proof (cases "t = maple_dense")
  case True
  with assms show ?thesis
    by (auto simp: mas_node_walk_def mas_set_offset_def mas_set_alloc_req_def
             split: if_splits)
next
  case False
  then have "mas_node_walk w mas t a b =
      bnd (bnd (mas_node_walk_loop w mas t (mas_offset mas) (min_idx mas) 0)
                (\<lambda>(i, mn, pv, ret). Inr (mas, i, mn, pv, ret)))
       (\<lambda>(mas, i, mn, pv, ret).
     bnd (mas_set_offset mas i) (\<lambda>mas.
     if ret then Inr (mas, mn, pv, True)
     else Inr (mas, a, b, False)))"
    by (cases t) (simp_all add: mas_node_walk_def)
  with assms show ?thesis
    by (cases "mas_node_walk_loop w mas t (mas_offset mas) (min_idx mas) 0")
       (auto simp: mas_set_offset_def mas_set_alloc_req_def split: if_splits)
qed

lemma mas_wr_walk_loop_step:
  assumes span: "span_enode mas = 0"
    and type: "mte_node_type (node mas) = Inr type"
    and de: "mas_data_end w (mas\<lparr>depth := depth mas + 1\<rparr>) = Inr end_slot"
    and walk: "mas_node_walk w (mas\<lparr>depth := depth mas + 1\<rparr>) type range_min range_max
                 = Inr (mas1, r_min, piv, True)"
    and S: "S \<longleftrightarrow> last_idx mas1 \<ge> piv
         \<and> \<not> (last_idx mas1 = ULONG_MAX \<and> min_idx mas1 \<le> index mas1
                \<and> last_idx mas1 = max_idx mas1)
         \<and> (if ma_is_leaf type
            then last_idx mas1 > max_idx mas1 \<or> (last_idx mas1 = max_idx mas1 \<and> entry = 0)
            else last_idx mas1 > piv \<or> entry = 0)"
  shows "mas_wr_walk_loop (Suc fuel) w mas range_min range_max entry =
     (if S
      then Inr (mas1\<lparr>span_enode := node mas\<rparr>, r_min, piv, ma_is_leaf type)
      else if ma_is_leaf type then Inr (mas1, r_min, piv, True)
      else
        (let mas2 = (if end_slot \<le> mt_min_slots type then mas_cnt_empty mas1
                     else if end_slot \<ge> mt_slots type - 1 then mas_cnt_full mas1
                     else mas1\<lparr>full_cnt := 0\<rparr>) in
         bnd (mas_get_rcu_slot w mas2 (mas_offset mas2)) (\<lambda>next.
         if mt_is_empty next
         then Inr (mas2\<lparr>max_idx := piv, min_idx := r_min\<rparr>, r_min, piv, False)
         else
           bnd (mas_set_offset (mas2\<lparr>max_idx := piv, min_idx := r_min, node := next\<rparr>) 0)
             (\<lambda>child. mas_wr_walk_loop fuel w child r_min piv entry))))"
proof -
  from mas_node_walk_fields [OF walk] span
  have f: "span_enode mas1 = 0" "node mas1 = node mas"
    by simp_all
  have t1: "mte_node_type (node mas1) = Inr type"
    using type f by simp
  have sp: "mas_is_span_wr mas1 piv entry =
      (if S then Inr (mas1\<lparr>span_enode := node mas\<rparr>, True) else Inr (mas1, False))"
    unfolding S using mas_is_span_wr_cases [OF f(1) t1, of piv entry] f(2) by simp
  show ?thesis
  proof (cases S)
    case True
    then show ?thesis
      by (simp add: type de walk sp)
  next
    case False
    then show ?thesis
      by (simp add: type de walk sp Let_def)
  qed
qed

text \<open>
  C3 (as amended). At every node the write walk visits with no spanning node recorded
  (\<^verbatim>\<open>mas_wr_walk\<close> starts like that, and the cursor it descends with still is), let
  \<open>i\<close> be the slot whose range contains \<open>index\<close>, \<open>piv\<close> its pivot and \<open>r_min\<close> the
  start of its range, as the node stores them. The walk classifies the node spanning,
  records it in \<open>span_enode\<close> and returns, exactly when \<open>last \<ge> piv\<close>, the write is not
  one with \<open>last\<close> the largest index that fits in the node (\<open>min \<le> index\<close> and
  \<open>last = max\<close>), and: in an internal node, \<open>last\<close> is above the pivot or the entry is
  null; in a leaf, \<open>last\<close> is above the node's max, or equals it and the entry is null.
  Otherwise it records nothing: at a leaf it returns with the slot's range, at an
  internal node it goes on to the child in that slot, or returns failure if there is none.
\<close>

theorem mas_wr_walk_span_spec:
  assumes span: "span_enode mas = 0"
    and off: "mas_offset mas = 0"
    and le: "index mas \<le> max_idx mas"
    and type: "mte_node_type (node mas) = Inr type"
    and rng: "spec_range w (node mas) (min_idx mas) (max_idx mas) (index mas)
                = Some (i, r_min, piv, content)"
    and de: "mas_data_end w (mas\<lparr>depth := depth mas + 1\<rparr>) = Inr end_slot"
  shows "mas_wr_walk_loop (Suc fuel) w mas range_min range_max entry =
     (let mas1 = mas\<lparr>depth := depth mas + 1, alloc_req := i\<rparr> in
      if last_idx mas \<ge> piv
         \<and> \<not> (last_idx mas = ULONG_MAX \<and> min_idx mas \<le> index mas
                \<and> last_idx mas = max_idx mas)
         \<and> (if ma_is_leaf type
            then last_idx mas > max_idx mas \<or> (last_idx mas = max_idx mas \<and> entry = 0)
            else last_idx mas > piv \<or> entry = 0)
      then Inr (mas1\<lparr>span_enode := node mas\<rparr>, r_min, piv, ma_is_leaf type)
      else if ma_is_leaf type then Inr (mas1, r_min, piv, True)
      else
        let mas2 = (if end_slot \<le> mt_min_slots type then mas_cnt_empty mas1
                    else if end_slot \<ge> mt_slots type - 1 then mas_cnt_full mas1
                    else mas1\<lparr>full_cnt := 0\<rparr>)\<lparr>max_idx := piv, min_idx := r_min\<rparr> in
        if content = 0 then Inr (mas2, r_min, piv, False)
        else mas_wr_walk_loop fuel w (mas2\<lparr>node := content, alloc_req := 0\<rparr>) r_min piv entry)"
proof -
  let ?m = "mas\<lparr>depth := depth mas + 1\<rparr>"
  let ?m1 = "mas\<lparr>depth := depth mas + 1, alloc_req := i\<rparr>"
  define S where "S \<longleftrightarrow> last_idx mas \<ge> piv
         \<and> \<not> (last_idx mas = ULONG_MAX \<and> min_idx mas \<le> index mas
                \<and> last_idx mas = max_idx mas)
         \<and> (if ma_is_leaf type
            then last_idx mas > max_idx mas \<or> (last_idx mas = max_idx mas \<and> entry = 0)
            else last_idx mas > piv \<or> entry = 0)"
  have rng': "spec_range w (node ?m) (min_idx ?m) (max_idx ?m) (index ?m)
                = Some (i, r_min, piv, content)"
    using rng by simp
  have t': "mte_node_type (node ?m) = Inr type"
    using type by simp
  have le': "index ?m \<le> max_idx ?m"
    using le by simp
  have off': "mas_offset ?m = 0"
    using off by (simp add: mas_offset_def mas_get_alloc_req_def)
  note W = mas_node_walk_spec [OF rng' t' le' off']
  have walk: "mas_node_walk w ?m type range_min range_max = Inr (?m1, r_min, piv, True)"
    using W(1) by simp
  have rd: "mte_get_rcu_slot w (node mas) i = Inr content"
    using W(2) by (simp add: mas_get_rcu_slot_def)
  have i: "i < 128"
    using W(3) mt_slots_le [of type] by (simp add: MAPLE_NODE_SLOTS_def)
  have S1: "S \<longleftrightarrow> last_idx ?m1 \<ge> piv
         \<and> \<not> (last_idx ?m1 = ULONG_MAX \<and> min_idx ?m1 \<le> index ?m1
                \<and> last_idx ?m1 = max_idx ?m1)
         \<and> (if ma_is_leaf type
            then last_idx ?m1 > max_idx ?m1 \<or> (last_idx ?m1 = max_idx ?m1 \<and> entry = 0)
            else last_idx ?m1 > piv \<or> entry = 0)"
    unfolding S_def by simp
  note step = mas_wr_walk_loop_step [OF span type de walk S1, of fuel]
  have main: "mas_wr_walk_loop (Suc fuel) w mas range_min range_max entry =
     (let mas1 = mas\<lparr>depth := depth mas + 1, alloc_req := i\<rparr> in
      if S
      then Inr (mas1\<lparr>span_enode := node mas\<rparr>, r_min, piv, ma_is_leaf type)
      else if ma_is_leaf type then Inr (mas1, r_min, piv, True)
      else
        let mas2 = (if end_slot \<le> mt_min_slots type then mas_cnt_empty mas1
                    else if end_slot \<ge> mt_slots type - 1 then mas_cnt_full mas1
                    else mas1\<lparr>full_cnt := 0\<rparr>)\<lparr>max_idx := piv, min_idx := r_min\<rparr> in
        if content = 0 then Inr (mas2, r_min, piv, False)
        else mas_wr_walk_loop fuel w (mas2\<lparr>node := content, alloc_req := 0\<rparr>) r_min piv entry)"
  proof (cases S)
    case True
    then show ?thesis
      using step by (simp add: Let_def del: mas_wr_walk_loop.simps)
  next
    case False
    show ?thesis
    proof (cases "ma_is_leaf type")
      case True
      then show ?thesis
        using step \<open>\<not> S\<close> by (simp add: Let_def del: mas_wr_walk_loop.simps)
    next
      case False
      then show ?thesis
        using step \<open>\<not> S\<close> rd i
        by (simp add: Let_def mas_get_rcu_slot_def mas_offset_def mas_get_alloc_req_def
              mas_cnt_empty_def mas_cnt_full_def mt_is_empty_def mas_set_offset_def
              mas_set_alloc_req_def del: mas_wr_walk_loop.simps)
    qed
  qed
  show ?thesis
    using main unfolding S_def .
qed

theorem mas_wr_walk_span_spec_witness:
  "span_enode leaf_cursor = 0 \<and> mas_offset leaf_cursor = 0
   \<and> index leaf_cursor \<le> max_idx leaf_cursor
   \<and> mte_node_type (node leaf_cursor) = Inr maple_leaf_64
   \<and> spec_range two_level_kernel (node leaf_cursor) (min_idx leaf_cursor)
         (max_idx leaf_cursor) (index leaf_cursor) = Some (0, 0, 20, entry_A)
   \<and> mas_data_end two_level_kernel (leaf_cursor\<lparr>depth := depth leaf_cursor + 1\<rparr>) = Inr 0
   \<and> mas_wr_walk 1 two_level_kernel leaf_cursor 0 0 0
       = Inr (leaf_cursor\<lparr>depth := 1, span_enode := node leaf_cursor\<rparr>, 0, 20, True)
   \<and> mas_wr_walk 1 two_level_kernel leaf_cursor 0 0 entry_A
       = Inr (leaf_cursor\<lparr>depth := 1\<rparr>, 0, 20, True)
   \<and> span_enode root_cursor = 0 \<and> mas_offset root_cursor = 0
   \<and> index root_cursor \<le> max_idx root_cursor
   \<and> mte_node_type (node root_cursor) = Inr maple_range_64
   \<and> spec_range two_level_kernel (node root_cursor) (min_idx root_cursor)
         (max_idx root_cursor) (index root_cursor)
       = Some (0, 0, 20, mt_mk_node 65792 maple_leaf_64)
   \<and> mas_data_end two_level_kernel (root_cursor\<lparr>depth := depth root_cursor + 1\<rparr>) = Inr 1
   \<and> mas_wr_walk 2 two_level_kernel root_cursor 0 0 0
       = Inr (root_cursor\<lparr>depth := 1, span_enode := node root_cursor\<rparr>, 0, 20, False)"
proof -
  have a: "span_enode leaf_cursor = 0"
    by code_simp
  have o: "mas_offset leaf_cursor = 0"
    by code_simp
  have l: "index leaf_cursor \<le> max_idx leaf_cursor"
    by code_simp
  have b: "mte_node_type (node leaf_cursor) = Inr maple_leaf_64"
    by code_simp
  have c: "spec_range two_level_kernel (node leaf_cursor) (min_idx leaf_cursor)
         (max_idx leaf_cursor) (index leaf_cursor) = Some (0, 0, 20, entry_A)"
    by code_simp
  have d: "mas_data_end two_level_kernel (leaf_cursor\<lparr>depth := depth leaf_cursor + 1\<rparr>)
           = Inr 0"
    by code_simp
  have a': "span_enode root_cursor = 0"
    by code_simp
  have o': "mas_offset root_cursor = 0"
    by code_simp
  have l': "index root_cursor \<le> max_idx root_cursor"
    by code_simp
  have b': "mte_node_type (node root_cursor) = Inr maple_range_64"
    by code_simp
  have c': "spec_range two_level_kernel (node root_cursor) (min_idx root_cursor)
         (max_idx root_cursor) (index root_cursor)
       = Some (0, 0, 20, mt_mk_node 65792 maple_leaf_64)"
    by code_simp
  have d': "mas_data_end two_level_kernel (root_cursor\<lparr>depth := depth root_cursor + 1\<rparr>)
           = Inr 1"
    by code_simp
  have r: "leaf_cursor\<lparr>span_enode := 0, full_cnt := 0, depth := 0\<rparr> = leaf_cursor"
          "root_cursor\<lparr>span_enode := 0, full_cnt := 0, depth := 0\<rparr> = root_cursor"
    by (simp_all add: leaf_cursor_def root_cursor_def MA_STATE_def)
  have two: "(2::nat) = Suc 1"
    by simp
  have e1: "mas_wr_walk 1 two_level_kernel leaf_cursor 0 0 0
       = Inr (leaf_cursor\<lparr>depth := 1, span_enode := node leaf_cursor\<rparr>, 0, 20, True)"
    using mas_wr_walk_span_spec [OF a o l b c d, of 0 0 0 0]
    by (simp add: mas_wr_walk_def r leaf_cursor_def MA_STATE_def ULONG_MAX_def
          ma_is_leaf_def Let_def del: mas_wr_walk_loop.simps)
  have e2: "mas_wr_walk 1 two_level_kernel leaf_cursor 0 0 entry_A
       = Inr (leaf_cursor\<lparr>depth := 1\<rparr>, 0, 20, True)"
    using mas_wr_walk_span_spec [OF a o l b c d, of 0 0 0 entry_A]
    by (simp add: mas_wr_walk_def r leaf_cursor_def MA_STATE_def ULONG_MAX_def
          ma_is_leaf_def entry_A_def Let_def del: mas_wr_walk_loop.simps)
  have e3: "mas_wr_walk 2 two_level_kernel root_cursor 0 0 0
       = Inr (root_cursor\<lparr>depth := 1, span_enode := node root_cursor\<rparr>, 0, 20, False)"
    unfolding two
    using mas_wr_walk_span_spec [OF a' o' l' b' c' d', of 1 0 0 0]
    by (simp add: mas_wr_walk_def r root_cursor_def MA_STATE_def ULONG_MAX_def
          ma_is_leaf_def Let_def del: mas_wr_walk_loop.simps)
  from a o l b c d e1 e2 a' o' l' b' c' d' e3 show ?thesis
    by (intro conjI)
qed

text \<open>
  C3 (as stated) fails for a non-null write that ends at the end of a leaf: at the
  first leaf of the two-level tree, whose range is \<open>[0, 20]\<close>, the write of \<open>entry_A\<close>
  over \<open>[5, 20]\<close> has \<open>last \<ge> pivot\<close> and \<open>last \<ge> max\<close> in a leaf, and \<open>last\<close> is not
  the largest index, yet the node is not classified spanning; the same write with a null
  entry is. The write walk from the root reaches that leaf and records no spanning node.
\<close>

theorem span_non_null_at_leaf_end_counterexample:
  "mte_is_leaf (node leaf_cursor) = Inr True
   \<and> last_idx leaf_cursor \<ge> 20
   \<and> last_idx leaf_cursor \<ge> max_idx leaf_cursor
   \<and> last_idx leaf_cursor \<noteq> ULONG_MAX
   \<and> entry_A \<noteq> 0
   \<and> mas_is_span_wr leaf_cursor 20 entry_A = Inr (leaf_cursor, False)
   \<and> mas_is_span_wr leaf_cursor 20 0
        = Inr (leaf_cursor\<lparr>span_enode := node leaf_cursor\<rparr>, True)
   \<and> (case mas_wr_walk 2 two_level_kernel
             ((MA_STATE 5 20)\<lparr>node := mt_mk_node 65536 maple_range_64\<rparr>) 0 0 entry_A of
         Inl h \<Rightarrow> False
       | Inr (mas, r_min, r_max, ok) \<Rightarrow>
           ok \<and> span_enode mas = 0 \<and> node mas = node leaf_cursor
           \<and> min_idx mas = 0 \<and> max_idx mas = 20 \<and> r_min = 0 \<and> r_max = 20)"
  by code_simp

subsubsection \<open>Inserting, and reserved entries\<close>

text \<open>
  C4 (evaluation at the failing input). After \<^verbatim>\<open>mtree_insert(mt, 0, A)\<close> on the
  empty tree, index 0 is occupied by \<open>A\<close>. \<^verbatim>\<open>mtree_insert_range(mt, 0, 5, B)\<close>
  intersects it, yet returns 0 and replaces \<open>A\<close>: \<^verbatim>\<open>ma_root_ptr\<close> refuses an insert
  over the root entry only when \<^verbatim>\<open>mas->last\<close> is 0.
\<close>

theorem insert_range_over_root_entry:
  "(case mtree_insert 1 1 (empty_kernel 0) 0 entry_A of
      Inl h \<Rightarrow> False
    | Inr (w, r) \<Rightarrow>
        r = 0 \<and> mtree_load 1 1 w 0 = Inr entry_A \<and> entry_A \<noteq> 0
        \<and> (case mtree_insert_range 1 1 w 0 5 entry_B of
              Inl h \<Rightarrow> False
            | Inr (w', r') \<Rightarrow>
                r' = 0 \<and> r' \<noteq> - EEXIST \<and> mtree_load 1 1 w' 0 = Inr entry_B
                \<and> entry_B \<noteq> entry_A))"
  by code_simp

text \<open>
  C5 (as amended). \<^verbatim>\<open>mtree_store_range\<close> and \<^verbatim>\<open>mtree_insert_range\<close> reject every
  advanced sentinel entry with \<^verbatim>\<open>-EINVAL\<close> and leave the memory untouched, whatever
  the tree and the range. The wider class of values below the first page that carry the
  internal tag is rejected, with \<^verbatim>\<open>-EINVAL\<close>, by \<^verbatim>\<open>mtree_alloc_range\<close>.
\<close>

theorem advanced_entry_rejected:
  "(xa_is_advanced entry \<longrightarrow>
      mtree_store_range rounds fuel w idx lst entry = Inr (w, - EINVAL)
      \<and> mtree_insert_range rounds fuel w idx lst entry = Inr (w, - EINVAL))
   \<and> (mt_is_reserved entry \<longrightarrow>
      mtree_alloc_range rounds w startp entry sz mn mx = Inr (w, - EINVAL, startp))"
  by (simp add: mtree_store_range_def mtree_insert_range_def mtree_alloc_range_def)

theorem advanced_entry_rejected_witness:
  "xa_is_advanced XA_RETRY_ENTRY
   \<and> mtree_store_range 1 1 (empty_kernel 0) 10 20 XA_RETRY_ENTRY
       = Inr (empty_kernel 0, - 22)
   \<and> mtree_insert_range 1 1 (empty_kernel 0) 10 20 XA_RETRY_ENTRY
       = Inr (empty_kernel 0, - 22)
   \<and> mt_is_reserved XA_ZERO_ENTRY
   \<and> mtree_alloc_range 1 (empty_kernel 1) 777 XA_ZERO_ENTRY 16 0 ULONG_MAX
       = Inr (empty_kernel 1, - 22, 777)"
proof -
  have a: "xa_is_advanced XA_RETRY_ENTRY"
    by (simp add: xa_is_advanced_def xa_is_internal_def XA_RETRY_ENTRY_def xa_mk_internal_def)
  have r: "mt_is_reserved XA_ZERO_ENTRY"
    by (simp add: mt_is_reserved_def xa_is_internal_def XA_ZERO_ENTRY_def xa_mk_internal_def)
  show ?thesis
    using a r
      advanced_entry_rejected [of XA_RETRY_ENTRY 1 1 "empty_kernel 0" 10 20]
      advanced_entry_rejected [of XA_ZERO_ENTRY 1 _ "empty_kernel 1" _ _ 777 16 0 ULONG_MAX]
    by (simp add: EINVAL_def)
qed

text \<open>
  C5 (as stated) fails for the zero sentinel: it is below the first page and carries the
  internal tag, so it is in the first reserved class, but it is not advanced, and both
  \<^verbatim>\<open>mtree_store_range\<close> and \<^verbatim>\<open>mtree_insert_range\<close> return 0 and store it: the cursor
  lookup \<^verbatim>\<open>mas_load\<close> finds it at index 0 afterwards.
\<close>

theorem reserved_entry_stored_counterexample:
  "XA_ZERO_ENTRY < 4096 \<and> xa_is_internal XA_ZERO_ENTRY \<and> mt_is_reserved XA_ZERO_ENTRY
   \<and> \<not> xa_is_advanced XA_ZERO_ENTRY
   \<and> (case mtree_store_range 1 1 (empty_kernel 0) 0 0 XA_ZERO_ENTRY of
         Inl h \<Rightarrow> False
       | Inr (w, r) \<Rightarrow>
           r = 0 \<and> (case mas_load 1 1 w (MA_STATE 0 0) of
                       Inl h \<Rightarrow> False | Inr (mas, e) \<Rightarrow> e = XA_ZERO_ENTRY))
   \<and> (case mtree_insert_range 1 1 (empty_kernel 0) 0 0 XA_ZERO_ENTRY of
         Inl h \<Rightarrow> False
       | Inr (w, r) \<Rightarrow>
           r = 0 \<and> (case mas_load 1 1 w (MA_STATE 0 0) of
                       Inl h \<Rightarrow> False | Inr (mas, e) \<Rightarrow> e = XA_ZERO_ENTRY))"
  by code_simp



subsubsection \<open>The gaps after a split\<close>

text \<open>
  The nine stores of \<open>gap_stores\<close>, one at a time: each returns 0; the first eight leave
  a single leaf, the ninth splits it and leaves \<open>gap_kernel\<close>.
\<close>

lemma gap_store_1:
  "mtree_store_range 1 3
      alloc_kernel 5 10 0 =
     Inr ((root_leaf_kernel [4, 10]
        []), 0)"
  by code_simp

lemma gap_store_2:
  "mtree_store_range 1 3
      (root_leaf_kernel [4, 10]
        []) 11 11 entry_A =
     Inr ((root_leaf_kernel [4, 10, 11]
        [0, 0, entry_A]), 0)"
  by code_simp

lemma gap_store_3:
  "mtree_store_range 1 3
      (root_leaf_kernel [4, 10, 11]
        [0, 0, entry_A]) 13 13 entry_A =
     Inr ((root_leaf_kernel [4, 10, 11, 12, 13]
        [0, 0, entry_A, 0, entry_A]), 0)"
  by code_simp

lemma gap_store_4:
  "mtree_store_range 1 3
      (root_leaf_kernel [4, 10, 11, 12, 13]
        [0, 0, entry_A, 0, entry_A]) 15 15 entry_A =
     Inr ((root_leaf_kernel [4, 10, 11, 12, 13, 14, 15]
        [0, 0, entry_A, 0, entry_A, 0, entry_A]), 0)"
  by code_simp

lemma gap_store_5:
  "mtree_store_range 1 3
      (root_leaf_kernel [4, 10, 11, 12, 13, 14, 15]
        [0, 0, entry_A, 0, entry_A, 0, entry_A]) 17 17 entry_A =
     Inr ((root_leaf_kernel [4, 10, 11, 12, 13, 14, 15, 16, 17]
        [0, 0, entry_A, 0, entry_A, 0, entry_A, 0, entry_A]), 0)"
  by code_simp

lemma gap_store_6:
  "mtree_store_range 1 3
      (root_leaf_kernel [4, 10, 11, 12, 13, 14, 15, 16, 17]
        [0, 0, entry_A, 0, entry_A, 0, entry_A, 0, entry_A]) 19 19 entry_A =
     Inr ((root_leaf_kernel [4, 10, 11, 12, 13, 14, 15, 16, 17, 18, 19]
        [0, 0, entry_A, 0, entry_A, 0, entry_A, 0, entry_A, 0, entry_A]), 0)"
  by code_simp

lemma gap_store_7:
  "mtree_store_range 1 3
      (root_leaf_kernel [4, 10, 11, 12, 13, 14, 15, 16, 17, 18, 19]
        [0, 0, entry_A, 0, entry_A, 0, entry_A, 0, entry_A, 0, entry_A]) 21 21 entry_A =
     Inr ((root_leaf_kernel [4, 10, 11, 12, 13, 14, 15, 16, 17, 18, 19, 20, 21]
        [0, 0, entry_A, 0, entry_A, 0, entry_A, 0, entry_A, 0, entry_A, 0, entry_A]), 0)"
  by code_simp

lemma gap_store_8:
  "mtree_store_range 1 3
      (root_leaf_kernel [4, 10, 11, 12, 13, 14, 15, 16, 17, 18, 19, 20, 21]
        [0, 0, entry_A, 0, entry_A, 0, entry_A, 0, entry_A, 0, entry_A, 0, entry_A]) 23 23 entry_A =
     Inr ((root_leaf_kernel [4, 10, 11, 12, 13, 14, 15, 16, 17, 18, 19, 20, 21, 22, 23]
        [0, 0, entry_A, 0, entry_A, 0, entry_A, 0, entry_A, 0, entry_A, 0, entry_A, 0, entry_A]), 0)"
  by code_simp

lemma gap_store_9:
  "mtree_store_range 1 3
      (root_leaf_kernel [4, 10, 11, 12, 13, 14, 15, 16, 17, 18, 19, 20, 21, 22, 23]
        [0, 0, entry_A, 0, entry_A, 0, entry_A, 0, entry_A, 0, entry_A, 0, entry_A, 0, entry_A]) 25 25 entry_A =
     Inr (gap_kernel, 0)"
  by code_simp

lemma gap_stores_reach_gap_kernel:
  "store_all alloc_kernel gap_stores = Inr (gap_kernel, [0, 0, 0, 0, 0, 0, 0, 0, 0])"
  by (simp only: gap_stores_def store_all.simps bnd_simps prod.case gap_store_1 gap_store_2
      gap_store_3 gap_store_4 gap_store_5 gap_store_6 gap_store_7 gap_store_8 gap_store_9)

text \<open>
  C6 (evaluation at the failing input). On an empty tree in allocation mode, store null
  over \<open>[5, 10]\<close> and then an entry at 11, 13, 15, 17, 19, 21, 23 and 25; every call
  returns 0 and the last one splits the root leaf. The new root is an arange-64 node,
  not a leaf, whose slot 0 covers \<open>[0, 17]\<close> and points to a leaf. The longest empty
  range among the indices 0 to 17, as the public lookup sees them, has length 11 (it is
  \<open>[0, 10]\<close>), but the gap recorded for slot 0 is 6: the leaf has the adjacent null slots
  \<open>[0, 4]\<close> and \<open>[5, 10]\<close>, and the gap computed for a leaf is its largest single null
  slot. The tree's own validation, \<^verbatim>\<open>mas_validate_gaps\<close>, adds adjacent null slots up
  and hits its \<^verbatim>\<open>MT_BUG_ON\<close> at that leaf.
\<close>

theorem gap_after_split_too_small:
  "mt_is_alloc (tree alloc_kernel)
   \<and> store_all alloc_kernel gap_stores = Inr (gap_kernel, [0, 0, 0, 0, 0, 0, 0, 0, 0])
   \<and> mte_node_type (node gap_root_cursor) = Inr maple_arange_64
   \<and> mte_is_root gap_kernel (node gap_root_cursor) = Inr True
   \<and> mte_is_leaf (node gap_root_cursor) = Inr False
   \<and> min_idx gap_root_cursor = 0
   \<and> mas_get_safe_pivot gap_kernel gap_root_cursor 0 = Inr 17
   \<and> mte_is_leaf (node gap_child_cursor) = Inr True
   \<and> min_idx gap_child_cursor = 0
   \<and> max_idx gap_child_cursor = 17
   \<and> mte_get_gap gap_kernel (node gap_root_cursor) 0 = Inr 6
   \<and> spec_max_gap 1 2 gap_kernel 0 18 = Inr 11
   \<and> mas_validate_gaps gap_kernel gap_child_cursor = Inr True"
proof (intro conjI)
  show "mt_is_alloc (tree alloc_kernel)"
    by code_simp
  show "store_all alloc_kernel gap_stores = Inr (gap_kernel, [0, 0, 0, 0, 0, 0, 0, 0, 0])"
    by (rule gap_stores_reach_gap_kernel)
  show "mte_node_type (node gap_root_cursor) = Inr maple_arange_64"
    by code_simp
  show "mte_is_root gap_kernel (node gap_root_cursor) = Inr True"
    by code_simp
  show "mte_is_leaf (node gap_root_cursor) = Inr False"
    by code_simp
  show "min_idx gap_root_cursor = 0"
    by code_simp
  show "mas_get_safe_pivot gap_kernel gap_root_cursor 0 = Inr 17"
    by code_simp
  show "mte_is_leaf (node gap_child_cursor) = Inr True"
    by code_simp
  show "min_idx gap_child_cursor = 0"
    by code_simp
  show "max_idx gap_child_cursor = 17"
    by code_simp
  show "mte_get_gap gap_kernel (node gap_root_cursor) 0 = Inr 6"
    by code_simp
  show "spec_max_gap 1 2 gap_kernel 0 18 = Inr 11"
    by code_simp
  show "mas_validate_gaps gap_kernel gap_child_cursor = Inr True"
    by code_simp
qed

subsubsection \<open>The occupancy after a split\<close>



















subsubsection \<open>The flags word and the cursor\<close>

text \<open>
  C8 (evaluation at the failing input). On a tree whose flags word is 0, switching RCU
  mode on sets bit 2, the lowest bit of the height field: bit 1 stays clear, the
  height read back by \<^verbatim>\<open>mt_height\<close> changes from 0 to 1, and the in-RCU predicate,
  which tests bit 2 as well, is false on a flags word that has only bit 1 set.
\<close>

theorem mt_set_in_rcu_changes_height:
  "ma_flags (mt_set_in_rcu (mt_init_flags 0)) = 4
   \<and> ma_flags (mt_set_in_rcu (mt_init_flags 0)) AND 2 = 0
   \<and> mt_height (mt_init_flags 0) = 0
   \<and> mt_height (mt_set_in_rcu (mt_init_flags 0)) = 1
   \<and> \<not> mas_in_rcu (mt_init_flags 2)
   \<and> mas_in_rcu (mt_init_flags 4)"
  by (simp add: mt_set_in_rcu_def mt_init_flags_def mt_height_def mas_in_rcu_def flag_consts)

text \<open>
  C9. \<^verbatim>\<open>mas_pause\<close> on a cursor whose \<open>last\<close> is below the largest index (the
  code's \<^verbatim>\<open>ULONG_MAX\<close>, which the specification calls \<^verbatim>\<open>UINT_MAX\<close>) puts the cursor
  in the \<^verbatim>\<open>MAS_START\<close> state, from which the next walk starts at the root, and sets
  both \<open>index\<close> and \<open>last\<close> to the old \<open>last\<close> plus one, leaving every other field
  as it was. On a cursor whose \<open>last\<close> is the largest index it changes the node to
  \<^verbatim>\<open>MAS_NONE\<close> and nothing else.
\<close>

theorem mas_pause_spec:
  "(last_idx mas \<noteq> ULONG_MAX \<longrightarrow>
      mas_pause mas =
        mas\<lparr>index := last_idx mas + 1, last_idx := last_idx mas + 1, node := MAS_START\<rparr>
      \<and> mas_is_start (mas_pause mas)
      \<and> index (mas_pause mas) = last_idx (mas_pause mas))
   \<and> (last_idx mas = ULONG_MAX \<longrightarrow>
      mas_pause mas = mas\<lparr>node := MAS_NONE\<rparr> \<and> mas_is_none (mas_pause mas))"
  by (simp add: mas_pause_def mas_reset_def mas_is_start_def mas_is_none_def Let_def)

theorem mas_pause_spec_witness:
  "last_idx (MA_STATE 3 7) \<noteq> ULONG_MAX
   \<and> mas_pause (MA_STATE 3 7) = MA_STATE 8 8
   \<and> last_idx ((MA_STATE 3 ULONG_MAX)\<lparr>node := 4096\<rparr>) = ULONG_MAX
   \<and> mas_pause ((MA_STATE 3 ULONG_MAX)\<lparr>node := 4096\<rparr>) = (MA_STATE 3 ULONG_MAX)\<lparr>node := MAS_NONE\<rparr>"
  using mas_pause_spec [of "MA_STATE 3 7"]
        mas_pause_spec [of "(MA_STATE 3 ULONG_MAX)\<lparr>node := 4096\<rparr>"]
  by (simp add: MA_STATE_def ULONG_MAX_def)

subsubsection \<open>The lookup of the zero sentinel\<close>

text \<open>
  The root of a tree that has one is neither of the cursor's sentinels. And an entry that
  carries the internal tag, as the zero sentinel does, is never written into the root
  word: \<^verbatim>\<open>ma_root_ptr\<close> expands the root into a node for it.
\<close>

lemma safe_root_not_sentinel:
  assumes "xa_is_node r"
  shows "r \<noteq> 0" "mte_safe_root r \<noteq> MAS_NONE" "mte_safe_root r \<noteq> MAS_ROOT"
proof -
  from assms have r: "r AND 3 = 2"
    by (simp add: xa_is_node_def xa_is_internal_def)
  then show "r \<noteq> 0" by auto
  have b0: "\<not> bit r 0"
  proof
    assume "bit r 0"
    then have "bit (r AND 3) 0" by (simp add: bit_simps)
    with r show False by simp
  qed
  then have "\<not> bit (mte_safe_root r) 0"
    by (simp add: mte_safe_root_def bit_simps)
  moreover have "bit (MAS_NONE :: ulong) 0" "bit (MAS_ROOT :: ulong) 0"
    by (simp_all add: MAS_NONE_def MAS_ROOT_def)
  ultimately show "mte_safe_root r \<noteq> MAS_NONE" "mte_safe_root r \<noteq> MAS_ROOT"
    by auto
qed

lemma ma_root_ptr_internal_entry:
  assumes "xa_is_internal entry"
  shows "ma_root_ptr w mas entry overwrite =
     (if xa_is_node (ma_root (tree w)) then Inr (w, mas, 0)
      else if ma_root (tree w) \<noteq> 0 \<and> last_idx mas = 0 \<and> \<not> overwrite
      then Inr (w, mas_set_err mas (- EEXIST), 0)
      else mas_root_expand w mas entry)"
  using assms by (simp add: ma_root_ptr_def xa_is_internal_def)



text \<open>
  C10. In a tree whose root is a node (the zero sentinel is never kept in the root word
  itself), if the entry stored in the range containing the index is the zero sentinel,
  then \<^verbatim>\<open>mtree_load\<close> at that index returns, and returns null, as it does when that
  range is empty. What is stored in the range containing the index is read off the nodes
  by \<open>spec_stored\<close>; the leaf that holds the range must not be marked dead (a lookup
  that meets a dead leaf starts again, until a writer has replaced the leaf).
\<close>

theorem mtree_load_zero_entry:
  assumes root: "xa_is_node (ma_root (tree w))"
      and stored: "spec_stored d w (mte_safe_root (ma_root (tree w))) 0 ULONG_MAX idx
                     = Some (leaf, e)"
      and zero: "e = XA_ZERO_ENTRY \<or> e = 0"
      and live: "mte_dead_node w leaf = Inr False"
  shows "mtree_load (Suc rounds) d w idx = Inr 0"
proof -
  let ?r = "ma_root (tree w)"
  let ?m = "\<lparr>index = idx, last_idx = idx, node = mte_safe_root ?r, min_idx = 0,
             max_idx = ULONG_MAX, alloc = [], alloc_req = 0, span_enode = 0, full_cnt = 0,
             depth = 0\<rparr>"
  note sr = safe_root_not_sentinel [OF root]
  have start: "mas_start w (MA_STATE idx idx) = Inr (?m, 0)"
    using root sr
    by (simp add: mas_start_def MA_STATE_def mas_is_err_def xa_is_err_def xa_is_internal_def
          MAS_START_def mas_is_start_def mas_set_offset_def mas_set_alloc_req_def)
  have le: "index ?m \<le> max_idx ?m"
    by (simp add: ULONG_MAX_def)
  from uu_mas_walk_spec [of d w ?m leaf e 0 0] stored le
  obtain mas' lo hi where walk: "uu_mas_walk d w ?m 0 0 = Inr (mas', lo, hi, True)"
      and lf: "node mas' = leaf"
      and rd: "mas_get_rcu_slot w mas' (mas_offset mas') = Inr e"
      and off: "mas_offset mas' < MAPLE_NODE_SLOTS"
      and np: "\<not> mas_is_ptr mas'"
    by (auto simp: mas_offset_def mas_get_alloc_req_def)
  have rw: "u_mas_range_walk d w (MA_STATE idx idx) 0 0 = Inr (mas', lo, hi, True)"
    using start sr walk
    by (simp add: u_mas_range_walk_def mas_is_none_def mas_is_ptr_def mas_set_offset_def
          mas_set_alloc_req_def)
  have "\<exists>e'. mas_range_load (Suc rounds) d w (MA_STATE idx idx) 0 0 = Inr (mas', lo, hi, e')
          \<and> (e' = 0 \<or> e' = XA_ZERO_ENTRY)"
    using rw np off rd live lf zero by (auto simp: Let_def)
  then show ?thesis
    by (auto simp: mtree_load_def mas_load_def xa_is_zero_def XA_ZERO_ENTRY_def
          xa_mk_internal_def)
qed

theorem mtree_load_zero_entry_witness:
  "xa_is_node (ma_root (tree zero_entry_kernel))
   \<and> spec_stored 1 zero_entry_kernel (mte_safe_root (ma_root (tree zero_entry_kernel)))
        0 ULONG_MAX 0 = Some (65612, XA_ZERO_ENTRY)
   \<and> mte_dead_node zero_entry_kernel 65612 = Inr False
   \<and> mtree_load 1 1 zero_entry_kernel 0 = Inr 0
   \<and> spec_stored 1 zero_entry_kernel (mte_safe_root (ma_root (tree zero_entry_kernel)))
        0 ULONG_MAX 7 = Some (65612, 0)
   \<and> mtree_load 1 1 zero_entry_kernel 7 = Inr 0
   \<and> xa_is_node (ma_root (tree zero_leaf_kernel))
   \<and> spec_stored 2 zero_leaf_kernel (mte_safe_root (ma_root (tree zero_leaf_kernel)))
        0 ULONG_MAX 25 = Some (mt_mk_node 66048 maple_leaf_64, XA_ZERO_ENTRY)
   \<and> mte_dead_node zero_leaf_kernel (mt_mk_node 66048 maple_leaf_64) = Inr False
   \<and> mtree_load 1 2 zero_leaf_kernel 25 = Inr 0"
proof -
  have a: "xa_is_node (ma_root (tree zero_entry_kernel))"
    by code_simp
  have b: "spec_stored 1 zero_entry_kernel (mte_safe_root (ma_root (tree zero_entry_kernel)))
        0 ULONG_MAX 0 = Some (65612, XA_ZERO_ENTRY)"
    by code_simp
  have b': "spec_stored 1 zero_entry_kernel (mte_safe_root (ma_root (tree zero_entry_kernel)))
        0 ULONG_MAX 7 = Some (65612, 0)"
    by code_simp
  have c: "mte_dead_node zero_entry_kernel 65612 = Inr False"
    by code_simp
  have a2: "xa_is_node (ma_root (tree zero_leaf_kernel))"
    by code_simp
  have b2: "spec_stored 2 zero_leaf_kernel (mte_safe_root (ma_root (tree zero_leaf_kernel)))
        0 ULONG_MAX 25 = Some (mt_mk_node 66048 maple_leaf_64, XA_ZERO_ENTRY)"
    by code_simp
  have c2: "mte_dead_node zero_leaf_kernel (mt_mk_node 66048 maple_leaf_64) = Inr False"
    by code_simp
  show ?thesis
    using a b b' c a2 b2 c2 mtree_load_zero_entry [OF a b _ c, of 0]
      mtree_load_zero_entry [OF a b' _ c, of 0]
      mtree_load_zero_entry [OF a2 b2 _ c2, of 0]
    by simp
qed


end
